theory Spec2Isabelle
  imports Complex_Main
begin

section \<open>Numbers\<close>

text \<open>
  A TypeScript \<open>number\<close> is an IEEE double. Rounding and the sign of zero are not modelled:
  a finite number is a \<open>real\<close>. Where the code can produce or receive a value that is not a
  finite number, the value has its own constructor: \<open>jsnum\<close> for the result of a division
  (the divisor may be zero), \<open>media_duration\<close> for \<open>HTMLMediaElement.duration\<close>, which is
  \<open>NaN\<close> before the metadata is known, \<open>+Infinity\<close> for an unbounded stream and a
  non-negative number of seconds otherwise. Times read from \<open>video.currentTime\<close> are always
  finite.
\<close>

datatype jsnum = NaN | NegInfinity | Fin real | PosInfinity

definition js_div :: "real \<Rightarrow> real \<Rightarrow> jsnum" where
  \<comment> \<open>\<open>a / b\<close> on two finite numbers\<close>
  "js_div a b =
     (if b \<noteq> 0 then Fin (a / b)
      else if 0 < a then PosInfinity
      else if a < 0 then NegInfinity
      else NaN)"

fun js_mul :: "jsnum \<Rightarrow> real \<Rightarrow> jsnum" where
  \<comment> \<open>\<open>a * b\<close> with \<open>b\<close> finite\<close>
  "js_mul NaN b = NaN"
| "js_mul (Fin a) b = Fin (a * b)"
| "js_mul PosInfinity b = (if 0 < b then PosInfinity else if b < 0 then NegInfinity else NaN)"
| "js_mul NegInfinity b = (if 0 < b then NegInfinity else if b < 0 then PosInfinity else NaN)"

fun js_add :: "jsnum \<Rightarrow> real \<Rightarrow> jsnum" where
  \<comment> \<open>\<open>a + b\<close> and \<open>a - b\<close> with \<open>b\<close> finite\<close>
  "js_add (Fin a) b = Fin (a + b)"
| "js_add a b = a"

datatype media_duration = DurationNaN | DurationInfinity | Seconds real

section \<open>Data model (types.ts)\<close>

record Point =
  p_x :: jsnum
  p_y :: jsnum

record DrawingPath =
  d_id :: string
  d_time :: real
  d_points :: "Point list"
  d_color :: string
  d_size :: real

record Annotation =
  a_id :: string
  a_time :: real
  a_x :: jsnum
  a_y :: jsnum
  a_text :: string
  a_color :: string

record Clip =
  c_id :: string
  c_name :: string
  c_startTime :: real
  c_endTime :: real
  c_duration :: real
  c_speed :: real

datatype ToolMode = ModePoint | ModePen | ModeNone

section \<open>The browser objects the component holds\<close>

datatype js_error = TypeError

record Touch =
  t_clientX :: real
  t_clientY :: real

text \<open>
  A \<open>React.MouseEvent\<close> carries \<open>clientX\<close> and \<open>clientY\<close>; a \<open>React.TouchEvent\<close> carries
  the list \<open>touches\<close> (\<open>'touches' in e\<close> tells them apart).
\<close>

datatype pointer_event = MouseEvent real real | TouchEvent "Touch list"

text \<open>
  The calls made on the 2D context, in order. \<open>measureText\<close> belongs to the browser and is
  a parameter of the functions that use it.
\<close>

datatype ctx_op =
    ClearRect real real real real
  | BeginPath
  | MoveTo jsnum jsnum
  | LineTo jsnum jsnum
  | Stroke
  | Fill
  | Arc jsnum jsnum real real real
  | FillRect jsnum jsnum real real
  | FillText string jsnum jsnum
  | SetStrokeStyle string
  | SetFillStyle string
  | SetLineWidth real
  | SetLineCap string
  | SetLineJoin string
  | SetFont string
  | SetTextAlign string

record canvas =
  rect_left :: real      \<comment> \<open>\<open>getBoundingClientRect()\<close>\<close>
  rect_top :: real
  rect_width :: real
  rect_height :: real
  cv_width :: real       \<comment> \<open>\<open>canvas.width\<close>, \<open>canvas.height\<close>\<close>
  cv_height :: real
  cv_has2d :: bool       \<comment> \<open>\<open>getContext('2d')\<close> is not null\<close>
  cv_ops :: "ctx_op list"  \<comment> \<open>the context calls made so far\<close>

record video =
  v_currentTime :: real
  v_duration :: media_duration
  v_paused :: bool
  v_playbackRate :: real

section \<open>Canvas and drawing logic (App.tsx)\<close>

fun clientX :: "pointer_event \<Rightarrow> js_error + real" where
  \<comment> \<open>\<open>'touches' in e ? e.touches[0].clientX : e.clientX\<close>; \<open>e.touches[0]\<close> is undefined
      on an empty list and reading its property throws\<close>
  "clientX (TouchEvent []) = Inl TypeError"
| "clientX (TouchEvent (t # ts)) = Inr (t_clientX t)"
| "clientX (MouseEvent cx cy) = Inr cx"

fun clientY :: "pointer_event \<Rightarrow> js_error + real" where
  "clientY (TouchEvent []) = Inl TypeError"
| "clientY (TouchEvent (t # ts)) = Inr (t_clientY t)"
| "clientY (MouseEvent cx cy) = Inr cy"

definition getNormalizedPos :: "pointer_event \<Rightarrow> canvas \<Rightarrow> js_error + Point" where
  "getNormalizedPos e cv =
     (case clientX e of
        Inl err \<Rightarrow> Inl err
      | Inr cx \<Rightarrow>
          (case clientY e of
             Inl err \<Rightarrow> Inl err
           | Inr cy \<Rightarrow>
               Inr \<lparr> p_x = js_div (cx - rect_left cv) (rect_width cv),
                     p_y = js_div (cy - rect_top cv) (rect_height cv) \<rparr>))"

definition currentTimeOr0 :: "video option \<Rightarrow> real" where
  \<comment> \<open>\<open>videoRef.current?.currentTime || 0\<close>\<close>
  "currentTimeOr0 v =
     (case v of
        None \<Rightarrow> 0
      | Some vid \<Rightarrow> if v_currentTime vid \<noteq> 0 then v_currentTime vid else 0)"

definition js_sub :: "jsnum \<Rightarrow> real \<Rightarrow> jsnum" where
  "js_sub a b = js_add a (- b)"

definition drawDrawing :: "canvas \<Rightarrow> DrawingPath \<Rightarrow> ctx_op list" where
  \<comment> \<open>the body of the \<open>if\<close> in \<open>drawings.forEach\<close>\<close>
  "drawDrawing cv drawing =
     [SetStrokeStyle (d_color drawing), SetLineWidth (d_size drawing),
      SetLineCap ''round'', SetLineJoin ''round'', BeginPath]
     @ map (\<lambda>(i, p).
              if i = 0 then MoveTo (js_mul (p_x p) (cv_width cv)) (js_mul (p_y p) (cv_height cv))
              else LineTo (js_mul (p_x p) (cv_width cv)) (js_mul (p_y p) (cv_height cv)))
           (enumerate 0 (d_points drawing))
     @ [Stroke]"

definition drawAnnotation :: "(string \<Rightarrow> real) \<Rightarrow> canvas \<Rightarrow> Annotation \<Rightarrow> ctx_op list" where
  \<comment> \<open>the body of the \<open>if\<close> in \<open>annotations.forEach\<close>\<close>
  "drawAnnotation measureText cv ann =
     (let x = js_mul (a_x ann) (cv_width cv);
          y = js_mul (a_y ann) (cv_height cv);
          textWidth = measureText (a_text ann)
      in [BeginPath, Arc x y 8 0 (2 * pi), SetFillStyle (a_color ann), Fill,
          SetStrokeStyle ''white'', SetLineWidth 2, Stroke,
          SetFont ''12px sans-serif'', SetFillStyle ''rgba(0,0,0,0.8)'',
          FillRect (js_sub (js_sub x (textWidth / 2)) 4) (js_add y 12) (textWidth + 8) 20,
          SetFillStyle ''white'', SetTextAlign ''center'',
          FillText (a_text ann) x (js_add y 26)])"

section \<open>Application state (App.tsx)\<close>

datatype modal_type = Alert | Confirm | Input

text \<open>
  The \<open>onConfirm\<close> closures the modal can hold, with the variables each one captured:
  the empty function of the initial state, the one of \<open>showAlert\<close>, and the one that
  \<open>handleStartInteraction\<close> passes to \<open>showPrompt\<close> in point mode (it captured \<open>pos\<close>
  and \<open>brushColor\<close>). \<open>onCancel\<close> only closes the modal and is left out.
\<close>

datatype confirm_action = NoAction | CloseAlert | PointPrompt Point string

record ModalConfig =
  m_isOpen :: bool
  m_type :: modal_type
  m_title :: string
  m_message :: "string option"
  m_defaultValue :: "string option"
  m_onConfirm :: confirm_action

record saved_state =
  s_time :: real
  s_wasPlaying :: bool

record blob =
  b_bytes :: string
  b_type :: string

record js_file =
  f_bytes :: string
  f_name :: string
  f_type :: string

text \<open>
  The state of the component: the \<open>useState\<close> cells and the \<open>useRef\<close> cells it reads
  and writes in the functions below. \<open>currentTime\<close> and \<open>duration\<close> (display only)
  and \<open>clipTimeoutRef\<close> (never assigned) are left out.
\<close>

record app =
  videoRef :: "video option"
  canvasRef :: "canvas option"
  videoSrc :: "string option"
  videoFileName :: "string option"
  isPlaying :: bool
  playbackSpeed :: real
  isClipPlaying :: bool
  activeClipId :: "string option"
  videoStateBeforeClip :: saved_state
  currentMode :: ToolMode
  brushColor :: string
  brushSize :: real
  isDrawing :: bool
  currentPathRef :: "Point list"
  notesState :: string   \<comment> \<open>\<open>notes\<close>\<close>
  drawings :: "DrawingPath list"
  annotations :: "Annotation list"
  clips :: "Clip list"
  originalVideoFile :: "js_file option"
  modalConfig :: ModalConfig

subsection \<open>Modal helpers\<close>

definition showAlert :: "string \<Rightarrow> app \<Rightarrow> app" where
  \<comment> \<open>with the default title\<close>
  "showAlert message s =
     s\<lparr> modalConfig :=
          \<lparr> m_isOpen = True, m_type = Alert, m_title = ''Aviso'', m_message = Some message,
            m_defaultValue = None, m_onConfirm = CloseAlert \<rparr> \<rparr>"

definition showPrompt :: "string \<Rightarrow> confirm_action \<Rightarrow> string \<Rightarrow> app \<Rightarrow> app" where
  "showPrompt title onConfirm defaultValue s =
     s\<lparr> modalConfig :=
          \<lparr> m_isOpen = True, m_type = Input, m_title = title, m_message = None,
            m_defaultValue = Some defaultValue, m_onConfirm = onConfirm \<rparr> \<rparr>"

definition closeModal :: "app \<Rightarrow> app" where
  \<comment> \<open>\<open>setModalConfig(prev => ({ ...prev, isOpen: false }))\<close>\<close>
  "closeModal s = s\<lparr> modalConfig := (modalConfig s)\<lparr> m_isOpen := False \<rparr> \<rparr>"

subsection \<open>Redrawing the canvas\<close>

definition redrawCanvas :: "(string \<Rightarrow> real) \<Rightarrow> app \<Rightarrow> app" where
  "redrawCanvas measureText s =
     (case canvasRef s of
        None \<Rightarrow> s
      | Some cv \<Rightarrow>
          if \<not> cv_has2d cv then s
          else
            let cleared = [ClearRect 0 0 (cv_width cv) (cv_height cv)];
                time = currentTimeOr0 (videoRef s);
                withDrawings =
                  fold (\<lambda>drawing ops.
                          if \<bar>d_time drawing - time\<bar> < 0.5
                          then ops @ drawDrawing cv drawing else ops)
                       (drawings s) cleared;
                withAnnotations =
                  fold (\<lambda>ann ops.
                          if \<bar>a_time ann - time\<bar> < 0.5
                          then ops @ drawAnnotation measureText cv ann else ops)
                       (annotations s) withDrawings
            in s\<lparr> canvasRef := Some (cv\<lparr> cv_ops := cv_ops cv @ withAnnotations \<rparr>) \<rparr>)"

subsection \<open>Event handlers\<close>

function show_nat :: "nat \<Rightarrow> string" where
  \<comment> \<open>the decimal digits of a number, as a template literal prints it\<close>
  "show_nat n =
     (if n < 10 then [char_of (48 + n)]
      else show_nat (n div 10) @ [char_of (48 + n mod 10)])"
  by pat_completeness auto
termination
  by (relation "measure (\<lambda>n. n)") auto

declare show_nat.simps [simp del]

definition falsy_string :: "string option \<Rightarrow> bool" where
  \<comment> \<open>\<open>!v\<close> on a value that is a string or null: null and the empty string are falsy\<close>
  "falsy_string v = (case v of None \<Rightarrow> True | Some str \<Rightarrow> str = [])"

definition handleStartInteraction :: "pointer_event \<Rightarrow> app \<Rightarrow> js_error + app" where
  "handleStartInteraction e s =
     (if falsy_string (videoSrc s) \<or> isClipPlaying s then Inr s
      else if currentMode s = ModeNone then Inr s
      else
        case canvasRef s of
          None \<Rightarrow> Inr s
        | Some cv \<Rightarrow>
            (case getNormalizedPos e cv of
               Inl err \<Rightarrow> Inl err
             | Inr pos \<Rightarrow>
                 if currentMode s = ModePoint then
                   Inr (showPrompt ''Nome do ponto / Clip:'' (PointPrompt pos (brushColor s))
                          (''Ponto '' @ show_nat (length (annotations s) + 1)) s)
                 else if currentMode s = ModePen then
                   Inr (s\<lparr> isDrawing := True, currentPathRef := [pos] \<rparr>)
                 else Inr s))"

definition autoClipEnd :: "real \<Rightarrow> video option \<Rightarrow> real" where
  \<comment> \<open>\<open>Math.min(time + 2, videoRef.current?.duration || time + 2)\<close>: the left operand of
      \<open>||\<close> is falsy when it is undefined, \<open>NaN\<close> or \<open>0\<close>\<close>
  "autoClipEnd time v =
     (case v of
        None \<Rightarrow> min (time + 2) (time + 2)
      | Some vid \<Rightarrow>
          (case v_duration vid of
             DurationNaN \<Rightarrow> min (time + 2) (time + 2)
           | DurationInfinity \<Rightarrow> time + 2
           | Seconds d \<Rightarrow> if d \<noteq> 0 then min (time + 2) d else min (time + 2) (time + 2)))"

definition pointPromptCallback :: "Point \<Rightarrow> string \<Rightarrow> string \<Rightarrow> string \<Rightarrow> string \<Rightarrow> app \<Rightarrow> app" where
  \<comment> \<open>the arrow function \<open>(text) => ...\<close> in \<open>handleStartInteraction\<close>; \<open>annId\<close> and
      \<open>clipId\<close> are the results of its two calls of \<open>generateId()\<close>\<close>
  "pointPromptCallback pos color annId clipId text s =
     (let time = currentTimeOr0 (videoRef s);
          newAnn = \<lparr> a_id = annId, a_time = time, a_x = p_x pos, a_y = p_y pos,
                     a_text = text, a_color = color \<rparr>;
          newClip = \<lparr> c_id = clipId, c_name = text, c_startTime = time,
                      c_endTime = autoClipEnd time (videoRef s),
                      c_duration = 2, c_speed = 0.5 \<rparr>
      in s\<lparr> annotations := annotations s @ [newAnn], clips := clips s @ [newClip] \<rparr>)"

definition Modal_handleConfirm :: "string \<Rightarrow> string \<Rightarrow> string \<Rightarrow> app \<Rightarrow> app" where
  \<comment> \<open>the Confirmar button (and Enter) of the open modal: \<open>inputValue\<close> is the text in its
      input box; an alert or confirm modal passes \<open>undefined\<close> instead\<close>
  "Modal_handleConfirm inputValue annId clipId s =
     (if \<not> m_isOpen (modalConfig s) then s
      else
        case m_onConfirm (modalConfig s) of
          NoAction \<Rightarrow> s
        | CloseAlert \<Rightarrow> closeModal s
        | PointPrompt pos color \<Rightarrow>
            if m_type (modalConfig s) = Input \<and> inputValue \<noteq> []
            then closeModal (pointPromptCallback pos color annId clipId inputValue s)
            else closeModal s)"

definition liveDraw :: "app \<Rightarrow> canvas \<Rightarrow> Point \<Rightarrow> ctx_op list" where
  "liveDraw s cv pos =
     (if cv_has2d cv then
        [LineTo (js_mul (p_x pos) (cv_width cv)) (js_mul (p_y pos) (cv_height cv)),
         SetStrokeStyle (brushColor s), SetLineWidth (brushSize s), Stroke, BeginPath,
         MoveTo (js_mul (p_x pos) (cv_width cv)) (js_mul (p_y pos) (cv_height cv))]
      else [])"

definition handleMoveInteraction :: "pointer_event \<Rightarrow> app \<Rightarrow> js_error + app" where
  "handleMoveInteraction e s =
     (if \<not> isDrawing s \<or> currentMode s \<noteq> ModePen then Inr s
      else
        case canvasRef s of
          None \<Rightarrow> Inr s
        | Some cv \<Rightarrow>
            (case getNormalizedPos e cv of
               Inl err \<Rightarrow> Inl err
             | Inr pos \<Rightarrow>
                 Inr (s\<lparr> currentPathRef := currentPathRef s @ [pos],
                         canvasRef := Some (cv\<lparr> cv_ops := cv_ops cv @ liveDraw s cv pos \<rparr>) \<rparr>)))"

definition resetPath :: "app \<Rightarrow> app" where
  \<comment> \<open>\<open>canvasRef.current?.getContext('2d')?.beginPath()\<close>\<close>
  "resetPath s =
     (case canvasRef s of
        None \<Rightarrow> s
      | Some cv \<Rightarrow>
          if cv_has2d cv then s\<lparr> canvasRef := Some (cv\<lparr> cv_ops := cv_ops cv @ [BeginPath] \<rparr>) \<rparr>
          else s)"

text \<open>
  \<open>handleEndInteraction\<close> passes \<open>setDrawings\<close> a function, \<open>prev => [...prev, {...}]\<close>,
  and the object of the new drawing is built in the body of that function. React does not
  call it at once: \<open>setIsDrawing(false)\<close>, just before, has put an update in the queue of
  the component, so the function waits in the queue and runs when the component next
  renders, after the handler has returned. It reads \<open>videoRef.current\<close> and
  \<open>currentPathRef.current\<close> at that moment, and calls \<open>generateId()\<close> then; \<open>brushColor\<close>
  and \<open>brushSize\<close> are the values the handler closed over.
\<close>

definition drawingUpdater :: "string \<Rightarrow> string \<Rightarrow> real \<Rightarrow> app \<Rightarrow> app" where
  \<comment> \<open>the function passed to \<open>setDrawings\<close>, on the state in which React runs it\<close>
  "drawingUpdater newId color width s =
     s\<lparr> drawings := drawings s @
          [\<lparr> d_id = newId, d_time = currentTimeOr0 (videoRef s),
             d_points = currentPathRef s, d_color = color, d_size = width \<rparr>] \<rparr>"

definition handleEndInteraction :: "string \<Rightarrow> app \<Rightarrow> app" where
  \<comment> \<open>the handler, then the queued function if the handler passed one to \<open>setDrawings\<close>;
      \<open>newId\<close> is the result of \<open>generateId()\<close>\<close>
  "handleEndInteraction newId s =
     (let stroke = (isDrawing s \<and> currentMode s = ModePen);
          queued = (stroke \<and> 1 < length (currentPathRef s));
          s1 = (if stroke then s\<lparr> isDrawing := False, currentPathRef := [] \<rparr> else s);
          s2 = resetPath s1
      in if queued then drawingUpdater newId (brushColor s) (brushSize s) s2 else s2)"

subsection \<open>Playback logic\<close>

text \<open>
  The video element is the record of the properties the component reads and writes.
  \<open>pause()\<close> and \<open>play()\<close> set \<open>paused\<close>; an assignment to \<open>currentTime\<close> seeks to
  the assigned time (the browser's clamping of a seek to the range of the media is not
  modelled).
\<close>

definition video_pause :: "video \<Rightarrow> video" where
  "video_pause vid = vid\<lparr> v_paused := True \<rparr>"

definition video_play :: "video \<Rightarrow> video" where
  "video_play vid = vid\<lparr> v_paused := False \<rparr>"

definition togglePlay :: "app \<Rightarrow> app" where
  "togglePlay s =
     (case videoRef s of
        None \<Rightarrow> s
      | Some vid \<Rightarrow>
          if v_paused vid then s\<lparr> videoRef := Some (video_play vid), isPlaying := True \<rparr>
          else s\<lparr> videoRef := Some (video_pause vid), isPlaying := False \<rparr>)"

definition playClip :: "Clip \<Rightarrow> app \<Rightarrow> app" where
  "playClip clip s =
     (case videoRef s of
        None \<Rightarrow> s
      | Some vid \<Rightarrow>
          let saved =
                (if \<not> isClipPlaying s
                 then \<lparr> s_time = v_currentTime vid, s_wasPlaying = \<not> v_paused vid \<rparr>
                 else videoStateBeforeClip s);
              vid1 = video_pause vid;
              vid2 = vid1\<lparr> v_currentTime := c_startTime clip \<rparr>;
              vid3 = vid2\<lparr> v_playbackRate := c_speed clip \<rparr>;
              vid4 = video_play vid3
          in s\<lparr> videoStateBeforeClip := saved, isClipPlaying := True,
                activeClipId := Some (c_id clip), videoRef := Some vid4 \<rparr>)"

definition stopClip :: "bool \<Rightarrow> app \<Rightarrow> app" where
  "stopClip resume s =
     (case videoRef s of
        None \<Rightarrow> s
      | Some vid \<Rightarrow>
          let vid1 = video_pause vid;
              vid2 = vid1\<lparr> v_playbackRate := playbackSpeed s \<rparr>;
              s1 =
                (if resume then
                   (let vid3 = vid2\<lparr> v_currentTime := s_time (videoStateBeforeClip s) \<rparr>
                    in if s_wasPlaying (videoStateBeforeClip s)
                       then s\<lparr> videoRef := Some (video_play vid3), isPlaying := True \<rparr>
                       else s\<lparr> videoRef := Some vid3, isPlaying := False \<rparr>)
                 else s\<lparr> videoRef := Some vid2 \<rparr>)
          in s1\<lparr> isClipPlaying := False, activeClipId := None \<rparr>)"

definition handleSpeedChange :: "real \<Rightarrow> app \<Rightarrow> app" where
  "handleSpeedChange speed s =
     (let s1 = s\<lparr> playbackSpeed := speed \<rparr>
      in case videoRef s of
           None \<Rightarrow> s1
         | Some vid \<Rightarrow>
             if \<not> isClipPlaying s then s1\<lparr> videoRef := Some (vid\<lparr> v_playbackRate := speed \<rparr>) \<rparr>
             else s1)"

definition videoAdvance :: "real \<Rightarrow> bool \<Rightarrow> app \<Rightarrow> app" where
  \<comment> \<open>the browser, not the component: playback moves the element to a new time, and the
      end of the media pauses it\<close>
  "videoAdvance t p s =
     (case videoRef s of
        None \<Rightarrow> s
      | Some vid \<Rightarrow> s\<lparr> videoRef := Some (vid\<lparr> v_currentTime := t, v_paused := p \<rparr>) \<rparr>)"

subsection \<open>Deleting a clip\<close>

definition clipDelete_onClick :: "Clip \<Rightarrow> app \<Rightarrow> app" where
  \<comment> \<open>the \<open>onClick\<close> of the trash button of \<open>clip\<close> in the clip list\<close>
  "clipDelete_onClick clip s =
     s\<lparr> clips := filter (\<lambda>c. c_id c \<noteq> c_id clip) (clips s),
        annotations := filter (\<lambda>a. a_text a \<noteq> c_name clip) (annotations s) \<rparr>"

subsection \<open>File logic\<close>

text \<open>
  The messages are the UTF-8 bytes of the source's string literals.
\<close>

definition msg_zip_invalid :: string where
  "msg_zip_invalid = ''Arquivo ZIP inv'' @ [CHR 0xC3, CHR 0xA1] @ ''lido.''"

definition msg_data_corrupt :: string where
  "msg_data_corrupt = ''Arquivo de dados corrompido.''"

definition msg_video_not_found :: string where
  "msg_video_not_found =
     ''V'' @ [CHR 0xC3, CHR 0xAD] @ ''deo principal n'' @ [CHR 0xC3, CHR 0xA3]
     @ ''o encontrado no arquivo.''"

definition msg_loaded :: string where
  "msg_loaded = ''An'' @ [CHR 0xC3, CHR 0xA1] @ ''lise carregada com sucesso!''"

text \<open>
  What \<open>JSON.parse\<close> returns, read through the cast \<open>as AnalysisData\<close>: a property is
  \<open>None\<close> when the parsed value does not have it (or has \<open>null\<close> there). \<open>JSON.parse\<close>
  throws on text that is not JSON, and returns \<open>null\<close> on the text \<open>null\<close>, where the
  first property read throws. \<open>JSON.parse\<close>, \<open>JSZip.loadAsync\<close> and
  \<open>URL.createObjectURL\<close> are parameters.
\<close>

record raw_AnalysisData =
  r_notes :: "string option"
  r_drawings :: "DrawingPath list option"
  r_annotations :: "Annotation list option"
  r_clips :: "Clip list option"
  r_primaryVideoFileName :: "string option"

datatype parsed = SyntaxError | JsonNull | JsonValue raw_AnalysisData

type_synonym zip = "string \<rightharpoonup> blob"

definition applyParsed ::
  "(js_file \<Rightarrow> string) \<Rightarrow> zip \<Rightarrow> raw_AnalysisData \<Rightarrow> app \<Rightarrow> app" where
  \<comment> \<open>the \<open>try\<close> block of \<open>handleLoadAnalysis\<close> after \<open>JSON.parse\<close>\<close>
  "applyParsed createObjectURL zp data s =
     (let s1 = s\<lparr> notesState :=
                    (case r_notes data of None \<Rightarrow> [] | Some n \<Rightarrow> if n \<noteq> [] then n else []),
                  drawings := (case r_drawings data of None \<Rightarrow> [] | Some ds \<Rightarrow> ds),
                  annotations := (case r_annotations data of None \<Rightarrow> [] | Some as \<Rightarrow> as),
                  clips := (case r_clips data of None \<Rightarrow> [] | Some cs \<Rightarrow> cs),
                  videoFileName := r_primaryVideoFileName data \<rparr>
      in case r_primaryVideoFileName data of
           None \<Rightarrow> showAlert msg_video_not_found s1
         | Some name \<Rightarrow>
             if name = [] then showAlert msg_video_not_found s1
             else
               (case zp name of
                  None \<Rightarrow> showAlert msg_video_not_found s1
                | Some blb \<Rightarrow>
                    let vidFile = \<lparr> f_bytes = b_bytes blb, f_name = name, f_type = b_type blb \<rparr>
                    in showAlert msg_loaded
                         (s1\<lparr> originalVideoFile := Some vidFile,
                              videoSrc := Some (createObjectURL vidFile) \<rparr>)))"

definition handleLoadAnalysis ::
  "(js_file \<Rightarrow> zip option) option \<Rightarrow> (string \<Rightarrow> parsed) \<Rightarrow> (js_file \<Rightarrow> string)
   \<Rightarrow> js_file option \<Rightarrow> app \<Rightarrow> app" where
  \<comment> \<open>the state once every promise of the chain has settled. \<open>JSZip\<close> is \<open>None\<close> when
      \<open>window.JSZip\<close> is missing, and \<open>loadAsync\<close> is \<open>None\<close> on a file where the promise
      rejects. A missing \<open>analysis_data.json\<close> makes \<open>zip.file(...)\<close> null: the call on it
      throws inside the first \<open>then\<close>, and the \<open>catch\<close> of the chain reports it.\<close>
  "handleLoadAnalysis JSZip JSON_parse createObjectURL fileInput s =
     (case fileInput of
        None \<Rightarrow> s
      | Some f \<Rightarrow>
          (case JSZip of
             None \<Rightarrow> s
           | Some loadAsync \<Rightarrow>
               (case loadAsync f of
                  None \<Rightarrow> showAlert msg_zip_invalid s
                | Some zp \<Rightarrow>
                    (case zp ''analysis_data.json'' of
                       None \<Rightarrow> showAlert msg_zip_invalid s
                     | Some entry \<Rightarrow>
                         (case JSON_parse (b_bytes entry) of
                            SyntaxError \<Rightarrow> showAlert msg_data_corrupt s
                          | JsonNull \<Rightarrow> showAlert msg_data_corrupt s
                          | JsonValue data \<Rightarrow> applyParsed createObjectURL zp data s)))))"

definition alertShown :: "app \<Rightarrow> string option" where
  \<comment> \<open>the message of the alert that the modal shows, if it shows one\<close>
  "alertShown s =
     (if m_isOpen (modalConfig s) \<and> m_type (modalConfig s) = Alert
      then m_message (modalConfig s) else None)"

subsection \<open>Sequences of events\<close>

datatype event =
    Down pointer_event     \<comment> \<open>\<open>onMouseDown\<close>, \<open>onTouchStart\<close>\<close>
  | Move pointer_event     \<comment> \<open>\<open>onMouseMove\<close>, \<open>onTouchMove\<close>\<close>
  | Up string              \<comment> \<open>\<open>onMouseUp\<close>, \<open>onMouseLeave\<close>, \<open>onTouchEnd\<close>, with the next id\<close>
  | Play Clip
  | Stop bool
  | Advance real bool

definition keep_on_throw :: "app \<Rightarrow> js_error + app \<Rightarrow> app" where
  \<comment> \<open>a handler that throws has not written anything before\<close>
  "keep_on_throw s r = (case r of Inl err \<Rightarrow> s | Inr s' \<Rightarrow> s')"

fun dispatch :: "event \<Rightarrow> app \<Rightarrow> app" where
  "dispatch (Down e) s = keep_on_throw s (handleStartInteraction e s)"
| "dispatch (Move e) s = keep_on_throw s (handleMoveInteraction e s)"
| "dispatch (Up newId) s = handleEndInteraction newId s"
| "dispatch (Play clip) s = playClip clip s"
| "dispatch (Stop resume) s = stopClip resume s"
| "dispatch (Advance t p) s = videoAdvance t p s"

definition run :: "event list \<Rightarrow> app \<Rightarrow> app" where
  "run evs s = fold dispatch evs s"

fun is_play_or_advance :: "event \<Rightarrow> bool" where
  "is_play_or_advance (Play clip) = True"
| "is_play_or_advance (Advance t p) = True"
| "is_play_or_advance _ = False"

fun is_move_or_advance :: "event \<Rightarrow> bool" where
  "is_move_or_advance (Move e) = True"
| "is_move_or_advance (Advance t p) = True"
| "is_move_or_advance _ = False"

fun moved_points :: "canvas \<Rightarrow> event list \<Rightarrow> Point list" where
  \<comment> \<open>the positions of the move events of a run on a canvas, those that throw left out\<close>
  "moved_points cv [] = []"
| "moved_points cv (Move e # evs) =
     (case getNormalizedPos e cv of
        Inl err \<Rightarrow> moved_points cv evs
      | Inr pos \<Rightarrow> pos # moved_points cv evs)"
| "moved_points cv (ev # evs) = moved_points cv evs"

subsection \<open>The state at mount\<close>

definition initialApp :: app where
  \<comment> \<open>the initial values of the \<open>useState\<close> and \<open>useRef\<close> calls\<close>
  "initialApp =
     \<lparr> videoRef = None, canvasRef = None, videoSrc = None, videoFileName = None,
       isPlaying = False, playbackSpeed = 1.0, isClipPlaying = False, activeClipId = None,
       videoStateBeforeClip = \<lparr> s_time = 0, s_wasPlaying = False \<rparr>,
       currentMode = ModePoint, brushColor = ''#00ff00'', brushSize = 5, isDrawing = False,
       currentPathRef = [], notesState = [], drawings = [], annotations = [], clips = [],
       originalVideoFile = None,
       modalConfig = \<lparr> m_isOpen = False, m_type = Alert, m_title = [], m_message = None,
                       m_defaultValue = None, m_onConfirm = NoAction \<rparr> \<rparr>"

subsection \<open>A session for the examples\<close>

definition demoCanvas :: canvas where
  "demoCanvas =
     \<lparr> rect_left = 0, rect_top = 0, rect_width = 640, rect_height = 360,
       cv_width = 640, cv_height = 360, cv_has2d = True, cv_ops = [] \<rparr>"

definition demoVideo :: "real \<Rightarrow> media_duration \<Rightarrow> bool \<Rightarrow> video" where
  "demoVideo t d p = \<lparr> v_currentTime = t, v_duration = d, v_paused = p, v_playbackRate = 1 \<rparr>"

definition demoApp :: "ToolMode \<Rightarrow> video \<Rightarrow> app" where
  \<comment> \<open>the state at mount, with a video loaded and a tool chosen\<close>
  "demoApp mode vid =
     initialApp\<lparr> videoSrc := Some ''blob:demo'', videoFileName := Some ''wave.mp4'',
                  videoRef := Some vid, canvasRef := Some demoCanvas, currentMode := mode \<rparr>"

definition demoFile :: js_file where
  "demoFile = \<lparr> f_bytes = ''PK'', f_name = ''Analise.zip'', f_type = ''application/zip'' \<rparr>"

definition demoData :: raw_AnalysisData where
  \<comment> \<open>a record that names a video\<close>
  "demoData =
     \<lparr> r_notes = Some ''late take off'',
       r_drawings = Some [],
       r_annotations = Some [\<lparr> a_id = ''a1'', a_time = 9, a_x = Fin (1 / 2), a_y = Fin (1 / 2),
                               a_text = ''Bottom Turn'', a_color = ''#00ff00'' \<rparr>],
       r_clips = Some [\<lparr> c_id = ''c1'', c_name = ''Bottom Turn'', c_startTime = 9,
                         c_endTime = 10, c_duration = 2, c_speed = 1 / 2 \<rparr>],
       r_primaryVideoFileName = Some ''wave.mp4'' \<rparr>"

definition emptyData :: raw_AnalysisData where
  \<comment> \<open>what the text \<open>{}\<close> parses to\<close>
  "emptyData =
     \<lparr> r_notes = None, r_drawings = None, r_annotations = None, r_clips = None,
       r_primaryVideoFileName = None \<rparr>"

definition dataOnlyZip :: zip where
  \<comment> \<open>an archive with the data record and no video\<close>
  "dataOnlyZip = [''analysis_data.json'' \<mapsto> \<lparr> b_bytes = ''{...}'', b_type = [] \<rparr>]"

section \<open>Coordinate normalizer\<close>

lemma getNormalizedPos_mouse:
  "getNormalizedPos (MouseEvent cx cy) cv =
     Inr \<lparr> p_x = js_div (cx - rect_left cv) (rect_width cv),
           p_y = js_div (cy - rect_top cv) (rect_height cv) \<rparr>"
  by (simp add: getNormalizedPos_def)

lemma getNormalizedPos_touch:
  "getNormalizedPos (TouchEvent (t # ts)) cv =
     Inr \<lparr> p_x = js_div (t_clientX t - rect_left cv) (rect_width cv),
           p_y = js_div (t_clientY t - rect_top cv) (rect_height cv) \<rparr>"
  by (simp add: getNormalizedPos_def)

lemma getNormalizedPos_no_touch:
  "getNormalizedPos (TouchEvent []) cv = Inl TypeError"
  by (simp add: getNormalizedPos_def)

lemma js_div_pos: "0 < b \<Longrightarrow> js_div a b = Fin (a / b)"
  by (simp add: js_div_def)

text \<open>
  C9. On a bounding box of positive width and height, the normalizer returns exactly
  \<open>x = (clientX - left) / width\<close> and \<open>y = (clientY - top) / height\<close>, for a mouse event
  and, with the coordinates of the first touch point, for a touch event. The result is the
  quotient itself, whatever its size: nothing clamps it to the unit interval.
\<close>

theorem getNormalizedPos_ratio:
  assumes "0 < rect_width cv" and "0 < rect_height cv"
  shows "getNormalizedPos (MouseEvent cx cy) cv =
           Inr \<lparr> p_x = Fin ((cx - rect_left cv) / rect_width cv),
                 p_y = Fin ((cy - rect_top cv) / rect_height cv) \<rparr>
       \<and> getNormalizedPos (TouchEvent (\<lparr> t_clientX = cx, t_clientY = cy \<rparr> # ts)) cv =
           getNormalizedPos (MouseEvent cx cy) cv"
  using assms
  by (simp add: getNormalizedPos_mouse getNormalizedPos_touch js_div_pos)

text \<open>
  The pointer 50 pixels left of and 300 pixels below the origin of a 100 by 200 box:
  \<open>x = -1/2\<close> and \<open>y = 3/2\<close>, both outside the unit interval.
\<close>

theorem getNormalizedPos_ratio_witness:
  "getNormalizedPos (MouseEvent (-40) 320)
     \<lparr> rect_left = 10, rect_top = 20, rect_width = 100, rect_height = 200,
       cv_width = 300, cv_height = 150, cv_has2d = True, cv_ops = [] \<rparr>
     = Inr \<lparr> p_x = Fin (- 1 / 2), p_y = Fin (3 / 2) \<rparr>
   \<and> getNormalizedPos (TouchEvent [\<lparr> t_clientX = -40, t_clientY = 320 \<rparr>])
     \<lparr> rect_left = 10, rect_top = 20, rect_width = 100, rect_height = 200,
       cv_width = 300, cv_height = 150, cv_has2d = True, cv_ops = [] \<rparr>
     = Inr \<lparr> p_x = Fin (- 1 / 2), p_y = Fin (3 / 2) \<rparr>"
  using getNormalizedPos_ratio [of
      "\<lparr> rect_left = 10, rect_top = 20, rect_width = 100, rect_height = 200,
         cv_width = 300, cv_height = 150, cv_has2d = True, cv_ops = [] \<rparr>" "-40" 320 "[]"]
  by simp

section \<open>Clip playback\<close>

lemma dispatch_keeps_saved:
  assumes "is_play_or_advance e" and "isClipPlaying s" and "videoRef s \<noteq> None"
  shows "isClipPlaying (dispatch e s) \<and> videoRef (dispatch e s) \<noteq> None
       \<and> videoStateBeforeClip (dispatch e s) = videoStateBeforeClip s"
  using assms
  by (cases e) (auto simp: playClip_def videoAdvance_def Let_def split: option.splits)

lemma run_keeps_saved:
  assumes "list_all is_play_or_advance evs" and "isClipPlaying s" and "videoRef s \<noteq> None"
  shows "isClipPlaying (run evs s) \<and> videoRef (run evs s) \<noteq> None
       \<and> videoStateBeforeClip (run evs s) = videoStateBeforeClip s"
  using assms
proof (induction evs arbitrary: s)
  case Nil
  then show ?case by (simp add: run_def)
next
  case (Cons e evs)
  from Cons.prems have e: "is_play_or_advance e" and rest: "list_all is_play_or_advance evs"
    by simp_all
  from dispatch_keeps_saved [OF e Cons.prems(2) Cons.prems(3)]
  have step: "isClipPlaying (dispatch e s)" "videoRef (dispatch e s) \<noteq> None"
    "videoStateBeforeClip (dispatch e s) = videoStateBeforeClip s"
    by simp_all
  from Cons.IH [OF rest step(1) step(2)] step(3)
  show ?case by (simp add: run_def)
qed

lemma playClip_from_idle:
  assumes "\<not> isClipPlaying s" and "videoRef s = Some vid"
  shows "isClipPlaying (playClip clip s) \<and> videoRef (playClip clip s) \<noteq> None
       \<and> videoStateBeforeClip (playClip clip s)
           = \<lparr> s_time = v_currentTime vid, s_wasPlaying = \<not> v_paused vid \<rparr>"
  using assms by (simp add: playClip_def Let_def)

lemma stopClip_resume_video:
  assumes "videoRef s \<noteq> None"
  shows "map_option v_currentTime (videoRef (stopClip True s)) = Some (s_time (videoStateBeforeClip s))
       \<and> map_option v_paused (videoRef (stopClip True s)) = Some (\<not> s_wasPlaying (videoStateBeforeClip s))
       \<and> isPlaying (stopClip True s) = s_wasPlaying (videoStateBeforeClip s)
       \<and> \<not> isClipPlaying (stopClip True s) \<and> activeClipId (stopClip True s) = None"
  using assms
  by (cases "s_wasPlaying (videoStateBeforeClip s)") (auto simp: stopClip_def Let_def video_pause_def video_play_def)

lemma advances_are_play_or_advance:
  "list_all is_play_or_advance (map (\<lambda>(t, p). Advance t p) ts)"
  by (induction ts) auto

text \<open>
  C2. From the idle state with the video paused at time \<open>T0\<close>, \<open>playClip\<close> followed by
  \<open>stopClip\<close> with \<open>resume = true\<close> leaves the video at \<open>T0\<close> and paused, whatever the
  clip's start time, end time and speed are and however the playback moved in between.
\<close>

theorem playClip_stopClip_roundtrip:
  assumes "\<not> isClipPlaying s" and "videoRef s = Some vid" and "v_paused vid"
  shows "map_option v_currentTime
           (videoRef (stopClip True (run (map (\<lambda>(t, p). Advance t p) ts) (playClip clip s))))
           = Some (v_currentTime vid)
       \<and> map_option v_paused
           (videoRef (stopClip True (run (map (\<lambda>(t, p). Advance t p) ts) (playClip clip s))))
           = Some True
       \<and> \<not> isPlaying (stopClip True (run (map (\<lambda>(t, p). Advance t p) ts) (playClip clip s)))
       \<and> \<not> isClipPlaying (stopClip True (run (map (\<lambda>(t, p). Advance t p) ts) (playClip clip s)))"
proof -
  let ?mid = "run (map (\<lambda>(t, p). Advance t p) ts) (playClip clip s)"
  from playClip_from_idle [OF assms(1) assms(2), of clip]
  have start: "isClipPlaying (playClip clip s)" "videoRef (playClip clip s) \<noteq> None"
    "videoStateBeforeClip (playClip clip s)
       = \<lparr> s_time = v_currentTime vid, s_wasPlaying = \<not> v_paused vid \<rparr>"
    by simp_all
  from run_keeps_saved [OF advances_are_play_or_advance start(1) start(2), of ts] start(3)
  have mid: "videoRef ?mid \<noteq> None"
    "videoStateBeforeClip ?mid = \<lparr> s_time = v_currentTime vid, s_wasPlaying = \<not> v_paused vid \<rparr>"
    by simp_all
  from stopClip_resume_video [OF mid(1)] mid(2) assms(3)
  show ?thesis by simp
qed

theorem playClip_stopClip_roundtrip_witness:
  "map_option v_currentTime
     (videoRef (stopClip True (run [Advance 9.5 False, Advance 10 True]
        (playClip \<lparr> c_id = ''a1'', c_name = ''Bottom Turn'', c_startTime = 9, c_endTime = 10,
                    c_duration = 2, c_speed = 0.5 \<rparr>
           (initialApp\<lparr> videoRef := Some \<lparr> v_currentTime = 4, v_duration = Seconds 10,
                                            v_paused = True, v_playbackRate = 1 \<rparr> \<rparr>)))))
     = Some 4
   \<and> map_option v_paused
     (videoRef (stopClip True (run [Advance 9.5 False, Advance 10 True]
        (playClip \<lparr> c_id = ''a1'', c_name = ''Bottom Turn'', c_startTime = 9, c_endTime = 10,
                    c_duration = 2, c_speed = 0.5 \<rparr>
           (initialApp\<lparr> videoRef := Some \<lparr> v_currentTime = 4, v_duration = Seconds 10,
                                            v_paused = True, v_playbackRate = 1 \<rparr> \<rparr>)))))
     = Some True"
  using playClip_stopClip_roundtrip [of
      "initialApp\<lparr> videoRef := Some \<lparr> v_currentTime = 4, v_duration = Seconds 10,
                                        v_paused = True, v_playbackRate = 1 \<rparr> \<rparr>"
      "\<lparr> v_currentTime = 4, v_duration = Seconds 10, v_paused = True, v_playbackRate = 1 \<rparr>"
      "[(9.5, False), (10, True)]"
      "\<lparr> c_id = ''a1'', c_name = ''Bottom Turn'', c_startTime = 9, c_endTime = 10,
         c_duration = 2, c_speed = 0.5 \<rparr>"]
  by (simp add: initialApp_def)

text \<open>
  C3. The saved state is written on the step from idle to clip playing only: after two or
  more calls of \<open>playClip\<close> with no stop between them, it still holds the time and the
  playing flag read before the first call, and \<open>stopClip\<close> with \<open>resume = true\<close> puts the
  video back at that time, playing or paused as it was then.
\<close>

theorem stacked_playClip_restores_first:
  assumes "\<not> isClipPlaying s" and "videoRef s = Some vid"
    and "list_all is_play_or_advance evs" and "list_all is_play_or_advance later"
  shows "videoStateBeforeClip (run (Play first # evs @ Play second # later) s)
           = \<lparr> s_time = v_currentTime vid, s_wasPlaying = \<not> v_paused vid \<rparr>
       \<and> map_option v_currentTime
           (videoRef (stopClip True (run (Play first # evs @ Play second # later) s)))
           = Some (v_currentTime vid)
       \<and> map_option v_paused
           (videoRef (stopClip True (run (Play first # evs @ Play second # later) s)))
           = Some (v_paused vid)
       \<and> isPlaying (stopClip True (run (Play first # evs @ Play second # later) s)) = (\<not> v_paused vid)"
proof -
  let ?mid = "run (evs @ Play second # later) (playClip first s)"
  have unfold: "run (Play first # evs @ Play second # later) s = ?mid"
    by (simp add: run_def)
  have plays: "list_all is_play_or_advance (evs @ Play second # later)"
    using assms(3) assms(4) by simp
  from playClip_from_idle [OF assms(1) assms(2), of first]
  have start: "isClipPlaying (playClip first s)" "videoRef (playClip first s) \<noteq> None"
    "videoStateBeforeClip (playClip first s)
       = \<lparr> s_time = v_currentTime vid, s_wasPlaying = \<not> v_paused vid \<rparr>"
    by simp_all
  from run_keeps_saved [OF plays start(1) start(2)] start(3)
  have mid: "videoRef ?mid \<noteq> None"
    "videoStateBeforeClip ?mid = \<lparr> s_time = v_currentTime vid, s_wasPlaying = \<not> v_paused vid \<rparr>"
    by simp_all
  from stopClip_resume_video [OF mid(1)] mid(2)
  show ?thesis unfolding unfold by simp
qed

theorem stacked_playClip_restores_first_witness:
  "map_option v_currentTime
     (videoRef (stopClip True (run
        [Play \<lparr> c_id = ''a1'', c_name = ''Take off'', c_startTime = 1, c_endTime = 3,
                 c_duration = 2, c_speed = 0.5 \<rparr>,
         Advance 2 False,
         Play \<lparr> c_id = ''b2'', c_name = ''Bottom Turn'', c_startTime = 9, c_endTime = 10,
                 c_duration = 2, c_speed = 0.5 \<rparr>,
         Advance 9.5 False]
        (initialApp\<lparr> videoRef := Some \<lparr> v_currentTime = 4, v_duration = Seconds 10,
                                         v_paused = False, v_playbackRate = 1 \<rparr> \<rparr>))))
     = Some 4
   \<and> map_option v_paused
     (videoRef (stopClip True (run
        [Play \<lparr> c_id = ''a1'', c_name = ''Take off'', c_startTime = 1, c_endTime = 3,
                 c_duration = 2, c_speed = 0.5 \<rparr>,
         Advance 2 False,
         Play \<lparr> c_id = ''b2'', c_name = ''Bottom Turn'', c_startTime = 9, c_endTime = 10,
                 c_duration = 2, c_speed = 0.5 \<rparr>,
         Advance 9.5 False]
        (initialApp\<lparr> videoRef := Some \<lparr> v_currentTime = 4, v_duration = Seconds 10,
                                         v_paused = False, v_playbackRate = 1 \<rparr> \<rparr>))))
     = Some False"
  using stacked_playClip_restores_first [of
      "initialApp\<lparr> videoRef := Some \<lparr> v_currentTime = 4, v_duration = Seconds 10,
                                        v_paused = False, v_playbackRate = 1 \<rparr> \<rparr>"
      "\<lparr> v_currentTime = 4, v_duration = Seconds 10, v_paused = False, v_playbackRate = 1 \<rparr>"
      "[Advance 2 False]" "[Advance 9.5 False]"
      "\<lparr> c_id = ''a1'', c_name = ''Take off'', c_startTime = 1, c_endTime = 3,
         c_duration = 2, c_speed = 0.5 \<rparr>"
      "\<lparr> c_id = ''b2'', c_name = ''Bottom Turn'', c_startTime = 9, c_endTime = 10,
         c_duration = 2, c_speed = 0.5 \<rparr>"]
  by (simp add: initialApp_def)

section \<open>Render pipeline\<close>

lemma fold_append_selected:
  "fold (\<lambda>x ops. if P x then ops @ f x else ops) xs acc = acc @ concat (map f (filter P xs))"
  by (induction xs arbitrary: acc) simp_all

lemma currentTimeOr0_Some: "currentTimeOr0 (Some vid) = v_currentTime vid"
  by (simp add: currentTimeOr0_def)

lemma later_points_are_lines:
  "map (\<lambda>(i, p). if i = 0 then M p else L p) (enumerate (Suc n) ps) = map L ps"
  by (induction ps arbitrary: n) simp_all

lemma polyline_ops:
  "map (\<lambda>(i, p). if i = 0 then M p else L p) (enumerate 0 ps)
     = (case ps of [] \<Rightarrow> [] | p # qs \<Rightarrow> M p # map L qs)"
  by (cases ps) (simp_all add: later_points_are_lines)

lemma drawDrawing_ops:
  "drawDrawing cv d =
     [SetStrokeStyle (d_color d), SetLineWidth (d_size d), SetLineCap ''round'',
      SetLineJoin ''round'', BeginPath]
     @ (case d_points d of
          [] \<Rightarrow> []
        | p # qs \<Rightarrow>
            MoveTo (js_mul (p_x p) (cv_width cv)) (js_mul (p_y p) (cv_height cv))
            # map (\<lambda>q. LineTo (js_mul (p_x q) (cv_width cv)) (js_mul (p_y q) (cv_height cv))) qs)
     @ [Stroke]"
  unfolding drawDrawing_def polyline_ops ..

lemma drawAnnotation_ops:
  "drawAnnotation measureText cv a =
     [BeginPath,
      Arc (js_mul (a_x a) (cv_width cv)) (js_mul (a_y a) (cv_height cv)) 8 0 (2 * pi),
      SetFillStyle (a_color a), Fill,
      SetStrokeStyle ''white'', SetLineWidth 2, Stroke,
      SetFont ''12px sans-serif'', SetFillStyle ''rgba(0,0,0,0.8)'',
      FillRect (js_add (js_mul (a_x a) (cv_width cv)) (- (measureText (a_text a) / 2) - 4))
               (js_add (js_mul (a_y a) (cv_height cv)) 12)
               (measureText (a_text a) + 8) 20,
      SetFillStyle ''white'', SetTextAlign ''center'',
      FillText (a_text a) (js_mul (a_x a) (cv_width cv))
               (js_add (js_mul (a_y a) (cv_height cv)) 26)]"
  by (cases "js_mul (a_x a) (cv_width cv)") (simp_all add: drawAnnotation_def Let_def js_sub_def)

text \<open>
  C4. With \<open>t\<close> the current time of the video (0 without a video), \<open>redrawCanvas\<close> clears
  the canvas and then paints, in order, exactly the drawings with \<open>|time - t| < 0.5\<close> and
  then exactly the annotations with \<open>|time - t| < 0.5\<close>: an item is painted if and only if
  it passes the strict test, so an item at distance 0.5 is not painted. A selected drawing
  is painted as one stroked path in its colour and width, which starts at its first point
  and runs through the others in order, each scaled to the canvas; a selected annotation
  as a filled circle of radius 8 in its colour with a white outline, at its scaled
  position, and under it a dark box with its text centred in white.
\<close>

theorem redrawCanvas_selects:
  assumes "canvasRef s = Some cv" and "cv_has2d cv"
  shows "canvasRef (redrawCanvas measureText s) =
           Some (cv\<lparr> cv_ops := cv_ops cv
             @ [ClearRect 0 0 (cv_width cv) (cv_height cv)]
             @ concat (map
                 (\<lambda>d. [SetStrokeStyle (d_color d), SetLineWidth (d_size d),
                       SetLineCap ''round'', SetLineJoin ''round'', BeginPath]
                      @ (case d_points d of
                           [] \<Rightarrow> []
                         | p # qs \<Rightarrow>
                             MoveTo (js_mul (p_x p) (cv_width cv)) (js_mul (p_y p) (cv_height cv))
                             # map (\<lambda>q. LineTo (js_mul (p_x q) (cv_width cv))
                                              (js_mul (p_y q) (cv_height cv))) qs)
                      @ [Stroke])
                 [d \<leftarrow> drawings s. \<bar>d_time d - currentTimeOr0 (videoRef s)\<bar> < 1 / 2])
             @ concat (map
                 (\<lambda>a. [BeginPath,
                       Arc (js_mul (a_x a) (cv_width cv)) (js_mul (a_y a) (cv_height cv))
                           8 0 (2 * pi),
                       SetFillStyle (a_color a), Fill,
                       SetStrokeStyle ''white'', SetLineWidth 2, Stroke,
                       SetFont ''12px sans-serif'', SetFillStyle ''rgba(0,0,0,0.8)'',
                       FillRect (js_add (js_mul (a_x a) (cv_width cv))
                                   (- (measureText (a_text a) / 2) - 4))
                                (js_add (js_mul (a_y a) (cv_height cv)) 12)
                                (measureText (a_text a) + 8) 20,
                       SetFillStyle ''white'', SetTextAlign ''center'',
                       FillText (a_text a) (js_mul (a_x a) (cv_width cv))
                                (js_add (js_mul (a_y a) (cv_height cv)) 26)])
                 [a \<leftarrow> annotations s. \<bar>a_time a - currentTimeOr0 (videoRef s)\<bar> < 1 / 2]) \<rparr>)
       \<and> currentTimeOr0 (Some vid) = v_currentTime vid"
proof -
  have sel: "canvasRef (redrawCanvas measureText s) =
           Some (cv\<lparr> cv_ops := cv_ops cv
                   @ [ClearRect 0 0 (cv_width cv) (cv_height cv)]
                   @ concat (map (drawDrawing cv)
                       [d \<leftarrow> drawings s. \<bar>d_time d - currentTimeOr0 (videoRef s)\<bar> < 1 / 2])
                   @ concat (map (drawAnnotation measureText cv)
                       [a \<leftarrow> annotations s. \<bar>a_time a - currentTimeOr0 (videoRef s)\<bar> < 1 / 2]) \<rparr>)"
    using assms by (simp add: redrawCanvas_def Let_def fold_append_selected)
  have d: "drawDrawing cv =
      (\<lambda>d. [SetStrokeStyle (d_color d), SetLineWidth (d_size d),
            SetLineCap ''round'', SetLineJoin ''round'', BeginPath]
           @ (case d_points d of
                [] \<Rightarrow> []
              | p # qs \<Rightarrow>
                  MoveTo (js_mul (p_x p) (cv_width cv)) (js_mul (p_y p) (cv_height cv))
                  # map (\<lambda>q. LineTo (js_mul (p_x q) (cv_width cv))
                                   (js_mul (p_y q) (cv_height cv))) qs)
           @ [Stroke])"
    by (rule ext) (rule drawDrawing_ops)
  have a: "drawAnnotation measureText cv =
      (\<lambda>a. [BeginPath,
            Arc (js_mul (a_x a) (cv_width cv)) (js_mul (a_y a) (cv_height cv)) 8 0 (2 * pi),
            SetFillStyle (a_color a), Fill,
            SetStrokeStyle ''white'', SetLineWidth 2, Stroke,
            SetFont ''12px sans-serif'', SetFillStyle ''rgba(0,0,0,0.8)'',
            FillRect (js_add (js_mul (a_x a) (cv_width cv))
                        (- (measureText (a_text a) / 2) - 4))
                     (js_add (js_mul (a_y a) (cv_height cv)) 12)
                     (measureText (a_text a) + 8) 20,
            SetFillStyle ''white'', SetTextAlign ''center'',
            FillText (a_text a) (js_mul (a_x a) (cv_width cv))
                     (js_add (js_mul (a_y a) (cv_height cv)) 26)])"
    by (rule ext) (rule drawAnnotation_ops)
  from sel show ?thesis
    unfolding d a by (simp add: currentTimeOr0_Some)
qed

text \<open>
  At second 1 on a 640 by 360 canvas: the drawing stamped 1.25 is painted through its
  three points and the annotation stamped 0.75 with its circle and label; the drawing
  stamped 1.5 and the annotation stamped 0.5 are at distance 0.5 and are not painted.
\<close>

theorem redrawCanvas_selects_witness:
  "canvasRef (redrawCanvas (\<lambda>t. 6 * real (length t))
     ((demoApp ModeNone (demoVideo 1 (Seconds 10) True))\<lparr>
        drawings :=
          [\<lparr> d_id = ''d1'', d_time = 1.25,
             d_points = [\<lparr> p_x = Fin (1 / 4), p_y = Fin (1 / 2) \<rparr>,
                         \<lparr> p_x = Fin (1 / 2), p_y = Fin (1 / 2) \<rparr>,
                         \<lparr> p_x = Fin (3 / 4), p_y = Fin (1 / 4) \<rparr>],
             d_color = ''#00ff00'', d_size = 5 \<rparr>,
           \<lparr> d_id = ''d2'', d_time = 1.5,
             d_points = [\<lparr> p_x = Fin 0, p_y = Fin 0 \<rparr>, \<lparr> p_x = Fin 1, p_y = Fin 1 \<rparr>],
             d_color = ''#ff0000'', d_size = 3 \<rparr>],
        annotations :=
          [\<lparr> a_id = ''a1'', a_time = 0.5, a_x = Fin (1 / 4), a_y = Fin (1 / 4),
             a_text = ''Take off'', a_color = ''#00ff00'' \<rparr>,
           \<lparr> a_id = ''a2'', a_time = 0.75, a_x = Fin (1 / 2), a_y = Fin (1 / 2),
             a_text = ''Bottom Turn'', a_color = ''#ff0000'' \<rparr>] \<rparr>))
   = Some (demoCanvas\<lparr> cv_ops :=
       [ClearRect 0 0 640 360,
        SetStrokeStyle ''#00ff00'', SetLineWidth 5, SetLineCap ''round'', SetLineJoin ''round'',
        BeginPath, MoveTo (Fin 160) (Fin 180), LineTo (Fin 320) (Fin 180),
        LineTo (Fin 480) (Fin 90), Stroke,
        BeginPath, Arc (Fin 320) (Fin 180) 8 0 (2 * pi), SetFillStyle ''#ff0000'', Fill,
        SetStrokeStyle ''white'', SetLineWidth 2, Stroke,
        SetFont ''12px sans-serif'', SetFillStyle ''rgba(0,0,0,0.8)'',
        FillRect (Fin 283) (Fin 192) 74 20,
        SetFillStyle ''white'', SetTextAlign ''center'',
        FillText ''Bottom Turn'' (Fin 320) (Fin 206)] \<rparr>)"
  using redrawCanvas_selects [of
     "(demoApp ModeNone (demoVideo 1 (Seconds 10) True))\<lparr>
        drawings :=
          [\<lparr> d_id = ''d1'', d_time = 1.25,
             d_points = [\<lparr> p_x = Fin (1 / 4), p_y = Fin (1 / 2) \<rparr>,
                         \<lparr> p_x = Fin (1 / 2), p_y = Fin (1 / 2) \<rparr>,
                         \<lparr> p_x = Fin (3 / 4), p_y = Fin (1 / 4) \<rparr>],
             d_color = ''#00ff00'', d_size = 5 \<rparr>,
           \<lparr> d_id = ''d2'', d_time = 1.5,
             d_points = [\<lparr> p_x = Fin 0, p_y = Fin 0 \<rparr>, \<lparr> p_x = Fin 1, p_y = Fin 1 \<rparr>],
             d_color = ''#ff0000'', d_size = 3 \<rparr>],
        annotations :=
          [\<lparr> a_id = ''a1'', a_time = 0.5, a_x = Fin (1 / 4), a_y = Fin (1 / 4),
             a_text = ''Take off'', a_color = ''#00ff00'' \<rparr>,
           \<lparr> a_id = ''a2'', a_time = 0.75, a_x = Fin (1 / 2), a_y = Fin (1 / 2),
             a_text = ''Bottom Turn'', a_color = ''#ff0000'' \<rparr>] \<rparr>"
     demoCanvas "\<lambda>t. 6 * real (length t)"]
  by (simp add: demoApp_def initialApp_def demoCanvas_def demoVideo_def currentTimeOr0_def)

section \<open>Deleting a clip\<close>

text \<open>
  C7. The trash button of a clip leaves no clip with that clip's id and no annotation whose
  text is that clip's name, however many there are; the other clips and the annotations
  with another text stay as they were, in their order, and the drawings and the notes do
  not change.
\<close>

theorem clipDelete_onClick_effect:
  "[c \<leftarrow> clips (clipDelete_onClick clip s). c_id c = c_id clip] = []
   \<and> [c \<leftarrow> clips (clipDelete_onClick clip s). c_id c \<noteq> c_id clip]
       = [c \<leftarrow> clips s. c_id c \<noteq> c_id clip]
   \<and> [a \<leftarrow> annotations (clipDelete_onClick clip s). a_text a = c_name clip] = []
   \<and> [a \<leftarrow> annotations (clipDelete_onClick clip s). a_text a \<noteq> c_name clip]
       = [a \<leftarrow> annotations s. a_text a \<noteq> c_name clip]
   \<and> drawings (clipDelete_onClick clip s) = drawings s
   \<and> notesState (clipDelete_onClick clip s) = notesState s"
  by (simp add: clipDelete_onClick_def)

lemma clipDelete_onClick_shared_name:
  "annotations (clipDelete_onClick
      \<lparr> c_id = ''c1'', c_name = ''Bottom Turn'', c_startTime = 9, c_endTime = 10,
        c_duration = 2, c_speed = 0.5 \<rparr>
      (initialApp\<lparr> annotations :=
         [\<lparr> a_id = ''a1'', a_time = 9, a_x = Fin 0.5, a_y = Fin 0.5,
            a_text = ''Bottom Turn'', a_color = ''#00ff00'' \<rparr>,
          \<lparr> a_id = ''a2'', a_time = 3, a_x = Fin 0.25, a_y = Fin 0.5,
            a_text = ''Take off'', a_color = ''#00ff00'' \<rparr>,
          \<lparr> a_id = ''a3'', a_time = 5, a_x = Fin 0.75, a_y = Fin 0.5,
            a_text = ''Bottom Turn'', a_color = ''#ff0000'' \<rparr>] \<rparr>))
   = [\<lparr> a_id = ''a2'', a_time = 3, a_x = Fin 0.25, a_y = Fin 0.5,
        a_text = ''Take off'', a_color = ''#00ff00'' \<rparr>]"
  by (simp add: clipDelete_onClick_def initialApp_def)

section \<open>Pen strokes\<close>

text \<open>
  C10. Ending a pen stroke whose recorded path has fewer than two points adds no drawing:
  the drawings are unchanged, the path in progress is emptied and the stroke is over.
\<close>

theorem handleEndInteraction_short_stroke:
  assumes "isDrawing s" and "currentMode s = ModePen" and "length (currentPathRef s) < 2"
  shows "drawings (handleEndInteraction newId s) = drawings s
       \<and> currentPathRef (handleEndInteraction newId s) = []
       \<and> \<not> isDrawing (handleEndInteraction newId s)"
  using assms
  by (auto simp: handleEndInteraction_def resetPath_def Let_def split: option.splits)

theorem handleEndInteraction_short_stroke_witness:
  "drawings (handleEndInteraction ''k3x9''
      (initialApp\<lparr> currentMode := ModePen, isDrawing := True,
                    currentPathRef := [\<lparr> p_x = Fin 0.25, p_y = Fin 0.5 \<rparr>] \<rparr>)) = []
   \<and> currentPathRef (handleEndInteraction ''k3x9''
      (initialApp\<lparr> currentMode := ModePen, isDrawing := True,
                    currentPathRef := [\<lparr> p_x = Fin 0.25, p_y = Fin 0.5 \<rparr>] \<rparr>)) = []"
  using handleEndInteraction_short_stroke [of
      "initialApp\<lparr> currentMode := ModePen, isDrawing := True,
                    currentPathRef := [\<lparr> p_x = Fin 0.25, p_y = Fin 0.5 \<rparr>] \<rparr>" "''k3x9''"]
  by (simp add: initialApp_def)

lemma getNormalizedPos_ops: "getNormalizedPos e (cv\<lparr> cv_ops := ops \<rparr>) = getNormalizedPos e cv"
  by (simp add: getNormalizedPos_def split: sum.splits)

lemma handleMoveInteraction_drawing:
  assumes "isDrawing s" and "currentMode s = ModePen" and "canvasRef s = Some (cv\<lparr> cv_ops := ops \<rparr>)"
  shows "isDrawing (dispatch (Move e) s) \<and> currentMode (dispatch (Move e) s) = ModePen
       \<and> (\<exists>ops'. canvasRef (dispatch (Move e) s) = Some (cv\<lparr> cv_ops := ops' \<rparr>))
       \<and> drawings (dispatch (Move e) s) = drawings s
       \<and> brushColor (dispatch (Move e) s) = brushColor s
       \<and> brushSize (dispatch (Move e) s) = brushSize s
       \<and> currentPathRef (dispatch (Move e) s) = currentPathRef s @ moved_points cv [Move e]"
proof (cases "getNormalizedPos e cv")
  case (Inl err)
  then show ?thesis using assms
    by (auto simp: handleMoveInteraction_def keep_on_throw_def getNormalizedPos_ops)
next
  case (Inr pos)
  then show ?thesis using assms
    by (auto simp: handleMoveInteraction_def keep_on_throw_def getNormalizedPos_ops)
qed

lemma videoAdvance_drawing:
  assumes "isDrawing s" and "currentMode s = ModePen" and "canvasRef s = Some (cv\<lparr> cv_ops := ops \<rparr>)"
  shows "isDrawing (dispatch (Advance t p) s) \<and> currentMode (dispatch (Advance t p) s) = ModePen
       \<and> (\<exists>ops'. canvasRef (dispatch (Advance t p) s) = Some (cv\<lparr> cv_ops := ops' \<rparr>))
       \<and> drawings (dispatch (Advance t p) s) = drawings s
       \<and> brushColor (dispatch (Advance t p) s) = brushColor s
       \<and> brushSize (dispatch (Advance t p) s) = brushSize s
       \<and> currentPathRef (dispatch (Advance t p) s) = currentPathRef s @ moved_points cv [Advance t p]"
  using assms by (cases "videoRef s") (auto simp: videoAdvance_def)

lemma moved_points_Cons:
  "is_move_or_advance ev \<Longrightarrow> moved_points cv (ev # evs) = moved_points cv [ev] @ moved_points cv evs"
  by (cases ev) (auto split: sum.splits)

lemma stroke_run:
  assumes "list_all is_move_or_advance evs"
    and "isDrawing s" and "currentMode s = ModePen" and "canvasRef s = Some (cv\<lparr> cv_ops := ops \<rparr>)"
  shows "isDrawing (run evs s) \<and> currentMode (run evs s) = ModePen
       \<and> drawings (run evs s) = drawings s
       \<and> brushColor (run evs s) = brushColor s
       \<and> brushSize (run evs s) = brushSize s
       \<and> currentPathRef (run evs s) = currentPathRef s @ moved_points cv evs"
  using assms
proof (induction evs arbitrary: s ops)
  case Nil
  then show ?case by (simp add: run_def)
next
  case (Cons ev evs)
  from Cons.prems(1) have ev: "is_move_or_advance ev" and rest: "list_all is_move_or_advance evs"
    by simp_all
  have step: "isDrawing (dispatch ev s) \<and> currentMode (dispatch ev s) = ModePen
       \<and> (\<exists>ops'. canvasRef (dispatch ev s) = Some (cv\<lparr> cv_ops := ops' \<rparr>))
       \<and> drawings (dispatch ev s) = drawings s
       \<and> brushColor (dispatch ev s) = brushColor s
       \<and> brushSize (dispatch ev s) = brushSize s
       \<and> currentPathRef (dispatch ev s) = currentPathRef s @ moved_points cv [ev]"
  proof (cases ev)
    case (Move e)
    then show ?thesis
      using handleMoveInteraction_drawing [OF Cons.prems(2) Cons.prems(3) Cons.prems(4)] by blast
  next
    case (Advance t p)
    then show ?thesis
      using videoAdvance_drawing [OF Cons.prems(2) Cons.prems(3) Cons.prems(4)] by blast
  qed (use ev in simp_all)
  then obtain ops' where cv': "canvasRef (dispatch ev s) = Some (cv\<lparr> cv_ops := ops' \<rparr>)"
    by blast
  from step have d: "isDrawing (dispatch ev s)" and m: "currentMode (dispatch ev s) = ModePen"
    by simp_all
  have run_step: "run (ev # evs) s = run evs (dispatch ev s)"
    by (simp add: run_def)
  from Cons.IH [OF rest d m cv'] step moved_points_Cons [OF ev, of cv evs]
  show ?case unfolding run_step by simp
qed

lemma handleStartInteraction_pen:
  assumes "\<not> falsy_string (videoSrc s)" and "\<not> isClipPlaying s" and "currentMode s = ModePen"
    and "canvasRef s = Some cv" and "getNormalizedPos e cv = Inr pos"
  shows "dispatch (Down e) s = s\<lparr> isDrawing := True, currentPathRef := [pos] \<rparr>"
  using assms by (auto simp: handleStartInteraction_def keep_on_throw_def)

lemma handleEndInteraction_long:
  assumes "isDrawing s" and "currentMode s = ModePen"
  shows "drawings (dispatch (Up newId) s) =
           (if 1 < length (currentPathRef s)
            then drawings s @ [\<lparr> d_id = newId, d_time = currentTimeOr0 (videoRef s),
                                d_points = [], d_color = brushColor s,
                                d_size = brushSize s \<rparr>]
            else drawings s)"
  using assms
  by (auto simp: handleEndInteraction_def resetPath_def drawingUpdater_def Let_def
      split: option.splits)




lemma demo_pos:
  "getNormalizedPos (MouseEvent cx cy) demoCanvas = Inr \<lparr> p_x = Fin (cx / 640), p_y = Fin (cy / 360) \<rparr>"
  by (simp add: getNormalizedPos_def demoCanvas_def js_div_def)

lemma demoApp_fields:
  "\<not> falsy_string (videoSrc (demoApp mode vid))" "\<not> isClipPlaying (demoApp mode vid)"
  "currentMode (demoApp mode vid) = mode" "canvasRef (demoApp mode vid) = Some demoCanvas"
  "videoRef (demoApp mode vid) = Some vid" "drawings (demoApp mode vid) = []"
  "annotations (demoApp mode vid) = []" "clips (demoApp mode vid) = []"
  "brushColor (demoApp mode vid) = ''#00ff00''" "brushSize (demoApp mode vid) = 5"
  by (simp_all add: demoApp_def initialApp_def falsy_string_def)

lemma stroke_state:
  assumes "\<not> falsy_string (videoSrc s)" and "\<not> isClipPlaying s" and "currentMode s = ModePen"
    and "canvasRef s = Some cv" and "getNormalizedPos e cv = Inr pos"
    and "list_all is_move_or_advance evs"
  shows "isDrawing (run evs (dispatch (Down e) s))"
    and "currentMode (run evs (dispatch (Down e) s)) = ModePen"
    and "drawings (run evs (dispatch (Down e) s)) = drawings s"
    and "brushColor (run evs (dispatch (Down e) s)) = brushColor s"
    and "brushSize (run evs (dispatch (Down e) s)) = brushSize s"
    and "currentPathRef (run evs (dispatch (Down e) s)) = pos # moved_points cv evs"
proof -
  let ?s1 = "dispatch (Down e) s"
  have s1: "?s1 = s\<lparr> isDrawing := True, currentPathRef := [pos] \<rparr>"
    using handleStartInteraction_pen [OF assms(1-5)] .
  have pre: "isDrawing ?s1" "currentMode ?s1 = ModePen"
    "canvasRef ?s1 = Some (cv\<lparr> cv_ops := cv_ops cv \<rparr>)"
    unfolding s1 using assms(3) assms(4) by simp_all
  from stroke_run [OF assms(6) pre]
  show "isDrawing (run evs ?s1)" "currentMode (run evs ?s1) = ModePen"
    "drawings (run evs ?s1) = drawings s"
    "brushColor (run evs ?s1) = brushColor s" "brushSize (run evs ?s1) = brushSize s"
    "currentPathRef (run evs ?s1) = pos # moved_points cv evs"
    unfolding s1 by simp_all
qed

lemma press_release_adds_nothing:
  assumes "\<not> falsy_string (videoSrc s)" and "\<not> isClipPlaying s" and "currentMode s = ModePen"
    and "canvasRef s = Some cv" and "getNormalizedPos e cv = Inr pos"
    and "list_all is_move_or_advance evs" and "moved_points cv evs = []"
  shows "drawings (dispatch (Up newId) (run evs (dispatch (Down e) s))) = drawings s"
proof -
  note mid = stroke_state [OF assms(1-6)]
  from handleEndInteraction_long [OF mid(1) mid(2), of newId] mid(3) mid(6) assms(7)
  show ?thesis by simp
qed




text \<open>
  The same stroke recorded two points. The queued function copies the path when it runs,
  and the handler has emptied the path by then: the drawing that is stored has no points.
\<close>

lemma pen_stroke_points_lost:
  "currentPathRef (run [Advance 3 False, Move (MouseEvent 320 180)]
      (dispatch (Down (MouseEvent 64 36)) (demoApp ModePen (demoVideo 1 (Seconds 10) False))))
     = [\<lparr> p_x = Fin (1 / 10), p_y = Fin (1 / 10) \<rparr>, \<lparr> p_x = Fin (1 / 2), p_y = Fin (1 / 2) \<rparr>]
   \<and> map d_points (drawings (dispatch (Up ''d1'')
        (run [Advance 3 False, Move (MouseEvent 320 180)]
           (dispatch (Down (MouseEvent 64 36))
              (demoApp ModePen (demoVideo 1 (Seconds 10) False))))))
     = [[]]"
proof -
  let ?mid = "run [Advance 3 False, Move (MouseEvent 320 180)]
               (dispatch (Down (MouseEvent 64 36)) (demoApp ModePen (demoVideo 1 (Seconds 10) False)))"
  have mid: "isDrawing ?mid" "currentMode ?mid = ModePen" "drawings ?mid = []"
    "currentPathRef ?mid = [\<lparr> p_x = Fin (1 / 10), p_y = Fin (1 / 10) \<rparr>,
                            \<lparr> p_x = Fin (1 / 2), p_y = Fin (1 / 2) \<rparr>]"
    using stroke_state [where s = "demoApp ModePen (demoVideo 1 (Seconds 10) False)"
      and cv = demoCanvas and e = "MouseEvent 64 36"
      and pos = "\<lparr> p_x = Fin (1 / 10), p_y = Fin (1 / 10) \<rparr>"
      and evs = "[Advance 3 False, Move (MouseEvent 320 180)]"]
    by (simp_all add: demoApp_fields demo_pos)
  from handleEndInteraction_long [OF mid(1) mid(2), of "''d1''"] mid(3) mid(4)
  have "map d_points (drawings (dispatch (Up ''d1'') ?mid)) = [[]]"
    by simp
  with mid(4) show ?thesis by (rule conjI)
qed

section \<open>Point annotations and their clips\<close>

lemma show_nat_example: "show_nat 12 = ''12'' \<and> show_nat 3 = ''3''"
  by code_simp

lemma handleStartInteraction_point:
  assumes "\<not> falsy_string (videoSrc s)" and "\<not> isClipPlaying s" and "currentMode s = ModePoint"
    and "canvasRef s = Some cv" and "getNormalizedPos e cv = Inr pos"
  shows "dispatch (Down e) s =
           showPrompt ''Nome do ponto / Clip:'' (PointPrompt pos (brushColor s))
             (''Ponto '' @ show_nat (length (annotations s) + 1)) s"
  using assms by (auto simp: handleStartInteraction_def keep_on_throw_def)

lemma autoClipEnd_cases:
  "autoClipEnd t (Some vid) =
     (case v_duration vid of
        Seconds D \<Rightarrow> if D = 0 then t + 2 else min (t + 2) D
      | DurationNaN \<Rightarrow> t + 2
      | DurationInfinity \<Rightarrow> t + 2)"
  by (simp add: autoClipEnd_def split: media_duration.splits)

lemma point_prompt_confirm:
  assumes "\<not> falsy_string (videoSrc s)" and "\<not> isClipPlaying s" and "currentMode s = ModePoint"
    and "canvasRef s = Some cv" and "getNormalizedPos e cv = Inr pos"
    and "videoRef s = Some vid" and "text \<noteq> []"
  shows "Modal_handleConfirm text annId clipId (videoAdvance t p (dispatch (Down e) s))
           = closeModal (pointPromptCallback pos (brushColor s) annId clipId text
               (videoAdvance t p (dispatch (Down e) s)))
       \<and> videoRef (videoAdvance t p (dispatch (Down e) s))
           = Some (vid\<lparr> v_currentTime := t, v_paused := p \<rparr>)
       \<and> annotations (videoAdvance t p (dispatch (Down e) s)) = annotations s
       \<and> clips (videoAdvance t p (dispatch (Down e) s)) = clips s"
proof -
  let ?s1 = "dispatch (Down e) s"
  have s1: "?s1 = showPrompt ''Nome do ponto / Clip:'' (PointPrompt pos (brushColor s))
                    (''Ponto '' @ show_nat (length (annotations s) + 1)) s"
    using handleStartInteraction_point [OF assms(1-5)] .
  let ?s2 = "videoAdvance t p ?s1"
  have s2: "m_isOpen (modalConfig ?s2)" "m_type (modalConfig ?s2) = Input"
    "m_onConfirm (modalConfig ?s2) = PointPrompt pos (brushColor s)"
    unfolding s1 using assms(6) by (simp_all add: showPrompt_def videoAdvance_def)
  have confirm: "Modal_handleConfirm text annId clipId ?s2
          = closeModal (pointPromptCallback pos (brushColor s) annId clipId text ?s2)"
    using s2 assms(7) by (simp add: Modal_handleConfirm_def)
  have frame: "videoRef ?s2 = Some (vid\<lparr> v_currentTime := t, v_paused := p \<rparr>)"
    "annotations ?s2 = annotations s" "clips ?s2 = clips s"
    unfolding s1 using assms(6) by (simp_all add: showPrompt_def videoAdvance_def)
  from confirm frame show ?thesis by blast
qed

text \<open>
  C1, as the code has it. Confirming the prompt of a point placement with a non-empty name,
  with the video at time \<open>t\<close>, appends exactly one annotation and exactly one clip. The clip
  has \<open>duration = 2\<close>, \<open>speed = 0.5\<close>, \<open>startTime = t\<close>, and \<open>endTime = min(t + 2, D)\<close>
  when the duration \<open>D\<close> of the video is a number other than 0 (for an unbounded stream
  that is \<open>t + 2\<close>); when the duration is 0 or not known yet, \<open>endTime = t + 2\<close>.
\<close>

theorem point_prompt_creates_pair:
  assumes "\<not> falsy_string (videoSrc s)" and "\<not> isClipPlaying s" and "currentMode s = ModePoint"
    and "canvasRef s = Some cv" and "getNormalizedPos e cv = Inr pos"
    and "videoRef s = Some vid" and "text \<noteq> []"
  shows "annotations (Modal_handleConfirm text annId clipId (videoAdvance t p (dispatch (Down e) s)))
           = annotations s @
             [\<lparr> a_id = annId, a_time = t, a_x = p_x pos, a_y = p_y pos, a_text = text,
                a_color = brushColor s \<rparr>]
       \<and> clips (Modal_handleConfirm text annId clipId (videoAdvance t p (dispatch (Down e) s)))
           = clips s @
             [\<lparr> c_id = clipId, c_name = text, c_startTime = t,
                c_endTime =
                  (case v_duration vid of
                     Seconds D \<Rightarrow> if D = 0 then t + 2 else min (t + 2) D
                   | DurationNaN \<Rightarrow> t + 2
                   | DurationInfinity \<Rightarrow> t + 2),
                c_duration = 2, c_speed = 1 / 2 \<rparr>]"
proof -
  from point_prompt_confirm [OF assms, of annId clipId t p]
  have confirm: "Modal_handleConfirm text annId clipId (videoAdvance t p (dispatch (Down e) s))
           = closeModal (pointPromptCallback pos (brushColor s) annId clipId text
               (videoAdvance t p (dispatch (Down e) s)))"
    and frame: "videoRef (videoAdvance t p (dispatch (Down e) s))
           = Some (vid\<lparr> v_currentTime := t, v_paused := p \<rparr>)"
      "annotations (videoAdvance t p (dispatch (Down e) s)) = annotations s"
      "clips (videoAdvance t p (dispatch (Down e) s)) = clips s"
    by blast+
  show ?thesis
    unfolding confirm using frame
    by (simp add: closeModal_def pointPromptCallback_def Let_def currentTimeOr0_Some
        autoClipEnd_cases)
qed

theorem point_prompt_creates_pair_witness:
  "clips (Modal_handleConfirm ''Bottom Turn'' ''a1'' ''c1''
      (videoAdvance 9 True
         (dispatch (Down (MouseEvent 320 180)) (demoApp ModePoint (demoVideo 8 (Seconds 10) False)))))
   = [\<lparr> c_id = ''c1'', c_name = ''Bottom Turn'', c_startTime = 9, c_endTime = 10,
        c_duration = 2, c_speed = 1 / 2 \<rparr>]
   \<and> annotations (Modal_handleConfirm ''Bottom Turn'' ''a1'' ''c1''
      (videoAdvance 9 True
         (dispatch (Down (MouseEvent 320 180)) (demoApp ModePoint (demoVideo 8 (Seconds 10) False)))))
   = [\<lparr> a_id = ''a1'', a_time = 9, a_x = Fin (1 / 2), a_y = Fin (1 / 2),
        a_text = ''Bottom Turn'', a_color = ''#00ff00'' \<rparr>]"
  using point_prompt_creates_pair [of
      "demoApp ModePoint (demoVideo 8 (Seconds 10) False)" demoCanvas
      "MouseEvent 320 180" "\<lparr> p_x = Fin (1 / 2), p_y = Fin (1 / 2) \<rparr>"
      "demoVideo 8 (Seconds 10) False" "''Bottom Turn''" "''a1''" "''c1''" 9 True]
  by (simp add: demoApp_fields demo_pos demoVideo_def)

text \<open>
  A video that reports the duration 0, marked at time 0: the clip ends at 2, and not at
  \<open>min(0 + 2, 0) = 0\<close>.
\<close>

theorem point_clip_end_counterexample:
  "map c_endTime (clips (Modal_handleConfirm ''Take off'' ''a1'' ''c1''
      (videoAdvance 0 True
         (dispatch (Down (MouseEvent 320 180)) (demoApp ModePoint (demoVideo 0 (Seconds 0) True))))))
   = [2]
   \<and> map c_endTime (clips (Modal_handleConfirm ''Take off'' ''a1'' ''c1''
      (videoAdvance 0 True
         (dispatch (Down (MouseEvent 320 180)) (demoApp ModePoint (demoVideo 0 (Seconds 0) True))))))
   \<noteq> [min (0 + 2) 0]"
proof -
  have confirm:
    "Modal_handleConfirm ''Take off'' ''a1'' ''c1''
       (videoAdvance 0 True
          (dispatch (Down (MouseEvent 320 180)) (demoApp ModePoint (demoVideo 0 (Seconds 0) True))))
     = closeModal (pointPromptCallback \<lparr> p_x = Fin (1 / 2), p_y = Fin (1 / 2) \<rparr> ''#00ff00''
         ''a1'' ''c1'' ''Take off''
         (videoAdvance 0 True
            (dispatch (Down (MouseEvent 320 180))
               (demoApp ModePoint (demoVideo 0 (Seconds 0) True)))))"
    "videoRef (videoAdvance 0 True
          (dispatch (Down (MouseEvent 320 180)) (demoApp ModePoint (demoVideo 0 (Seconds 0) True))))
     = Some \<lparr> v_currentTime = 0, v_duration = Seconds 0, v_paused = True, v_playbackRate = 1 \<rparr>"
    "clips (videoAdvance 0 True
          (dispatch (Down (MouseEvent 320 180)) (demoApp ModePoint (demoVideo 0 (Seconds 0) True))))
     = []"
    using point_prompt_confirm [of
      "demoApp ModePoint (demoVideo 0 (Seconds 0) True)" demoCanvas
      "MouseEvent 320 180" "\<lparr> p_x = Fin (1 / 2), p_y = Fin (1 / 2) \<rparr>"
      "demoVideo 0 (Seconds 0) True" "''Take off''" "''a1''" "''c1''" 0 True]
    by (simp_all add: demoApp_fields demo_pos demoVideo_def)
  show ?thesis
    unfolding confirm(1) using confirm(2) confirm(3)
    by (simp add: closeModal_def pointPromptCallback_def Let_def currentTimeOr0_def
        autoClipEnd_def)
qed

text \<open>
  Without a video element the callback reads the time as 0 and has no duration to compare
  with: the clip runs from 0 to 2.
\<close>

lemma point_prompt_no_video:
  assumes "\<not> falsy_string (videoSrc s)" and "\<not> isClipPlaying s" and "currentMode s = ModePoint"
    and "canvasRef s = Some cv" and "getNormalizedPos e cv = Inr pos"
    and "videoRef s = None" and "text \<noteq> []"
  shows "clips (Modal_handleConfirm text annId clipId (dispatch (Down e) s))
           = clips s @
             [\<lparr> c_id = clipId, c_name = text, c_startTime = 0, c_endTime = 2,
                c_duration = 2, c_speed = 1 / 2 \<rparr>]"
  unfolding handleStartInteraction_point [OF assms(1-5)]
  using assms(6) assms(7)
  by (simp add: showPrompt_def Modal_handleConfirm_def closeModal_def pointPromptCallback_def
      Let_def currentTimeOr0_def autoClipEnd_def)

section \<open>Loading an archive\<close>

lemma alertShown_showAlert: "alertShown (showAlert msg s) = Some msg"
  by (simp add: alertShown_def showAlert_def)

lemma showAlert_fields:
  "notesState (showAlert msg s) = notesState s" "drawings (showAlert msg s) = drawings s"
  "annotations (showAlert msg s) = annotations s" "clips (showAlert msg s) = clips s"
  "videoFileName (showAlert msg s) = videoFileName s" "videoSrc (showAlert msg s) = videoSrc s"
  "originalVideoFile (showAlert msg s) = originalVideoFile s"
  by (simp_all add: showAlert_def)

lemma load_rejected:
  assumes "loadAsync f = None"
  shows "handleLoadAnalysis (Some loadAsync) JSON_parse createObjectURL (Some f) s
           = showAlert msg_zip_invalid s"
  using assms by (simp add: handleLoadAnalysis_def)

lemma load_unparsable:
  assumes "loadAsync f = Some zp" and "zp ''analysis_data.json'' = Some entry"
    and "JSON_parse (b_bytes entry) = SyntaxError"
  shows "handleLoadAnalysis (Some loadAsync) JSON_parse createObjectURL (Some f) s
           = showAlert msg_data_corrupt s"
  using assms by (simp add: handleLoadAnalysis_def)

lemma load_parsed:
  assumes "loadAsync f = Some zp" and "zp ''analysis_data.json'' = Some entry"
    and "JSON_parse (b_bytes entry) = JsonValue data"
  shows "handleLoadAnalysis (Some loadAsync) JSON_parse createObjectURL (Some f) s
           = applyParsed createObjectURL zp data s"
  using assms by (simp add: handleLoadAnalysis_def)

lemma applyParsed_fields:
  "notesState (applyParsed url zp data s) = (case r_notes data of None \<Rightarrow> [] | Some n \<Rightarrow> n)"
  "drawings (applyParsed url zp data s) = (case r_drawings data of None \<Rightarrow> [] | Some ds \<Rightarrow> ds)"
  "annotations (applyParsed url zp data s) = (case r_annotations data of None \<Rightarrow> [] | Some as \<Rightarrow> as)"
  "clips (applyParsed url zp data s) = (case r_clips data of None \<Rightarrow> [] | Some cs \<Rightarrow> cs)"
  "videoFileName (applyParsed url zp data s) = r_primaryVideoFileName data"
  by (auto simp: applyParsed_def Let_def showAlert_def split: option.splits)

lemma applyParsed_no_video:
  assumes "r_primaryVideoFileName data = None
           \<or> r_primaryVideoFileName data = Some name \<and> zp name = None"
  shows "alertShown (applyParsed url zp data s) = Some msg_video_not_found"
    and "videoSrc (applyParsed url zp data s) = videoSrc s"
    and "originalVideoFile (applyParsed url zp data s) = originalVideoFile s"
  using assms
  by (auto simp: applyParsed_def Let_def showAlert_def alertShown_def)

lemma messages_distinct:
  "msg_zip_invalid \<noteq> msg_data_corrupt" "msg_zip_invalid \<noteq> msg_video_not_found"
  "msg_data_corrupt \<noteq> msg_video_not_found"
  by (simp_all add: msg_zip_invalid_def msg_data_corrupt_def msg_video_not_found_def)

text \<open>
  C6, as the code has it. When the data record of the archive parses, a missing \<open>notes\<close>
  is loaded as the empty string, and missing \<open>drawings\<close>, \<open>annotations\<close> and \<open>clips\<close> each
  as the empty list. \<open>primaryVideoFileName\<close> has no default: the file name of the state
  becomes whatever the record holds, nothing when the record has no name, and the load then
  reports that the video was not found and attaches no video.
\<close>

theorem handleLoadAnalysis_defaults:
  assumes "loadAsync f = Some zp" and "zp ''analysis_data.json'' = Some entry"
    and "JSON_parse (b_bytes entry) = JsonValue data"
  shows "(r_notes data = None \<longrightarrow>
            notesState (handleLoadAnalysis (Some loadAsync) JSON_parse createObjectURL (Some f) s) = [])
       \<and> (r_drawings data = None \<longrightarrow>
            drawings (handleLoadAnalysis (Some loadAsync) JSON_parse createObjectURL (Some f) s) = [])
       \<and> (r_annotations data = None \<longrightarrow>
            annotations (handleLoadAnalysis (Some loadAsync) JSON_parse createObjectURL (Some f) s) = [])
       \<and> (r_clips data = None \<longrightarrow>
            clips (handleLoadAnalysis (Some loadAsync) JSON_parse createObjectURL (Some f) s) = [])
       \<and> videoFileName (handleLoadAnalysis (Some loadAsync) JSON_parse createObjectURL (Some f) s)
            = r_primaryVideoFileName data
       \<and> (r_primaryVideoFileName data = None \<longrightarrow>
            alertShown (handleLoadAnalysis (Some loadAsync) JSON_parse createObjectURL (Some f) s)
              = Some msg_video_not_found
            \<and> videoSrc (handleLoadAnalysis (Some loadAsync) JSON_parse createObjectURL (Some f) s)
              = videoSrc s)"
proof -
  have parsed: "handleLoadAnalysis (Some loadAsync) JSON_parse createObjectURL (Some f) s
                  = applyParsed createObjectURL zp data s"
    using assms by (rule load_parsed)
  show ?thesis
    unfolding parsed by (simp add: applyParsed_fields applyParsed_no_video)
qed

theorem handleLoadAnalysis_defaults_witness:
  "notesState (handleLoadAnalysis (Some (\<lambda>f. Some dataOnlyZip)) (\<lambda>txt. JsonValue emptyData)
      (\<lambda>f. ''blob:1'') (Some demoFile) (demoApp ModePoint (demoVideo 0 (Seconds 10) True))) = []
   \<and> clips (handleLoadAnalysis (Some (\<lambda>f. Some dataOnlyZip)) (\<lambda>txt. JsonValue emptyData)
      (\<lambda>f. ''blob:1'') (Some demoFile) (demoApp ModePoint (demoVideo 0 (Seconds 10) True))) = []
   \<and> videoFileName (handleLoadAnalysis (Some (\<lambda>f. Some dataOnlyZip)) (\<lambda>txt. JsonValue emptyData)
      (\<lambda>f. ''blob:1'') (Some demoFile) (demoApp ModePoint (demoVideo 0 (Seconds 10) True))) = None"
  using handleLoadAnalysis_defaults [of "\<lambda>f. Some dataOnlyZip" demoFile dataOnlyZip
      "\<lparr> b_bytes = ''{...}'', b_type = [] \<rparr>" "\<lambda>txt. JsonValue emptyData" emptyData
      "\<lambda>f. ''blob:1''" "demoApp ModePoint (demoVideo 0 (Seconds 10) True)"]
  by (simp add: dataOnlyZip_def emptyData_def)

text \<open>
  The record \<open>{}\<close>: after the load the file name is missing, not the empty string.
\<close>

theorem load_file_name_counterexample:
  "videoFileName (handleLoadAnalysis (Some (\<lambda>f. Some dataOnlyZip)) (\<lambda>txt. JsonValue emptyData)
      (\<lambda>f. ''blob:1'') (Some demoFile) (demoApp ModePoint (demoVideo 0 (Seconds 10) True))) = None
   \<and> videoFileName (handleLoadAnalysis (Some (\<lambda>f. Some dataOnlyZip)) (\<lambda>txt. JsonValue emptyData)
      (\<lambda>f. ''blob:1'') (Some demoFile) (demoApp ModePoint (demoVideo 0 (Seconds 10) True))) \<noteq> Some []"
  using load_parsed [of "\<lambda>f. Some dataOnlyZip" demoFile dataOnlyZip
      "\<lparr> b_bytes = ''{...}'', b_type = [] \<rparr>" "\<lambda>txt. JsonValue emptyData" emptyData
      "\<lambda>f. ''blob:1''" "demoApp ModePoint (demoVideo 0 (Seconds 10) True)"]
  by (simp add: dataOnlyZip_def applyParsed_fields emptyData_def)

text \<open>
  C8. Each failure of a load has its own report: an archive that cannot be read shows
  \<open>msg_zip_invalid\<close>, a data record that does not parse shows \<open>msg_data_corrupt\<close>, and a
  record whose video is not in the archive shows \<open>msg_video_not_found\<close>; the three
  messages differ. In the last case the parsed notes, drawings, annotations and clips are
  in the state all the same, and the video source and the video file are what they were.
\<close>

theorem handleLoadAnalysis_reports:
  "(loadAsync f = None \<longrightarrow>
      alertShown (handleLoadAnalysis (Some loadAsync) JSON_parse createObjectURL (Some f) s)
        = Some msg_zip_invalid)
   \<and> (loadAsync f = Some zp \<and> zp ''analysis_data.json'' = Some entry
        \<and> JSON_parse (b_bytes entry) = SyntaxError \<longrightarrow>
      alertShown (handleLoadAnalysis (Some loadAsync) JSON_parse createObjectURL (Some f) s)
        = Some msg_data_corrupt)
   \<and> (loadAsync f = Some zp \<and> zp ''analysis_data.json'' = Some entry
        \<and> JSON_parse (b_bytes entry) = JsonValue data
        \<and> r_notes data = Some n \<and> r_drawings data = Some ds
        \<and> r_annotations data = Some as \<and> r_clips data = Some cs
        \<and> (r_primaryVideoFileName data = None
             \<or> r_primaryVideoFileName data = Some name \<and> zp name = None) \<longrightarrow>
      alertShown (handleLoadAnalysis (Some loadAsync) JSON_parse createObjectURL (Some f) s)
        = Some msg_video_not_found
      \<and> notesState (handleLoadAnalysis (Some loadAsync) JSON_parse createObjectURL (Some f) s) = n
      \<and> drawings (handleLoadAnalysis (Some loadAsync) JSON_parse createObjectURL (Some f) s) = ds
      \<and> annotations (handleLoadAnalysis (Some loadAsync) JSON_parse createObjectURL (Some f) s) = as
      \<and> clips (handleLoadAnalysis (Some loadAsync) JSON_parse createObjectURL (Some f) s) = cs
      \<and> videoSrc (handleLoadAnalysis (Some loadAsync) JSON_parse createObjectURL (Some f) s)
          = videoSrc s
      \<and> originalVideoFile (handleLoadAnalysis (Some loadAsync) JSON_parse createObjectURL (Some f) s)
          = originalVideoFile s)
   \<and> msg_zip_invalid \<noteq> msg_data_corrupt
   \<and> msg_zip_invalid \<noteq> msg_video_not_found
   \<and> msg_data_corrupt \<noteq> msg_video_not_found"
proof -
  have rejected: "loadAsync f = None \<longrightarrow>
      alertShown (handleLoadAnalysis (Some loadAsync) JSON_parse createObjectURL (Some f) s)
        = Some msg_zip_invalid"
    by (simp add: load_rejected alertShown_showAlert)
  have unparsable: "loadAsync f = Some zp \<and> zp ''analysis_data.json'' = Some entry
        \<and> JSON_parse (b_bytes entry) = SyntaxError \<longrightarrow>
      alertShown (handleLoadAnalysis (Some loadAsync) JSON_parse createObjectURL (Some f) s)
        = Some msg_data_corrupt"
    by (simp add: load_unparsable alertShown_showAlert)
  have no_video: "loadAsync f = Some zp \<and> zp ''analysis_data.json'' = Some entry
        \<and> JSON_parse (b_bytes entry) = JsonValue data
        \<and> r_notes data = Some n \<and> r_drawings data = Some ds
        \<and> r_annotations data = Some as \<and> r_clips data = Some cs
        \<and> (r_primaryVideoFileName data = None
             \<or> r_primaryVideoFileName data = Some name \<and> zp name = None) \<longrightarrow>
      alertShown (handleLoadAnalysis (Some loadAsync) JSON_parse createObjectURL (Some f) s)
        = Some msg_video_not_found
      \<and> notesState (handleLoadAnalysis (Some loadAsync) JSON_parse createObjectURL (Some f) s) = n
      \<and> drawings (handleLoadAnalysis (Some loadAsync) JSON_parse createObjectURL (Some f) s) = ds
      \<and> annotations (handleLoadAnalysis (Some loadAsync) JSON_parse createObjectURL (Some f) s) = as
      \<and> clips (handleLoadAnalysis (Some loadAsync) JSON_parse createObjectURL (Some f) s) = cs
      \<and> videoSrc (handleLoadAnalysis (Some loadAsync) JSON_parse createObjectURL (Some f) s)
          = videoSrc s
      \<and> originalVideoFile (handleLoadAnalysis (Some loadAsync) JSON_parse createObjectURL (Some f) s)
          = originalVideoFile s"
  proof (intro impI)
    assume a: "loadAsync f = Some zp \<and> zp ''analysis_data.json'' = Some entry
        \<and> JSON_parse (b_bytes entry) = JsonValue data
        \<and> r_notes data = Some n \<and> r_drawings data = Some ds
        \<and> r_annotations data = Some as \<and> r_clips data = Some cs
        \<and> (r_primaryVideoFileName data = None
             \<or> r_primaryVideoFileName data = Some name \<and> zp name = None)"
    then have parsed: "handleLoadAnalysis (Some loadAsync) JSON_parse createObjectURL (Some f) s
           = applyParsed createObjectURL zp data s"
      by (simp add: load_parsed)
    from a have nv: "r_primaryVideoFileName data = None
           \<or> r_primaryVideoFileName data = Some name \<and> zp name = None"
      by simp
    from a show "alertShown (handleLoadAnalysis (Some loadAsync) JSON_parse createObjectURL (Some f) s)
        = Some msg_video_not_found
      \<and> notesState (handleLoadAnalysis (Some loadAsync) JSON_parse createObjectURL (Some f) s) = n
      \<and> drawings (handleLoadAnalysis (Some loadAsync) JSON_parse createObjectURL (Some f) s) = ds
      \<and> annotations (handleLoadAnalysis (Some loadAsync) JSON_parse createObjectURL (Some f) s) = as
      \<and> clips (handleLoadAnalysis (Some loadAsync) JSON_parse createObjectURL (Some f) s) = cs
      \<and> videoSrc (handleLoadAnalysis (Some loadAsync) JSON_parse createObjectURL (Some f) s)
          = videoSrc s
      \<and> originalVideoFile (handleLoadAnalysis (Some loadAsync) JSON_parse createObjectURL (Some f) s)
          = originalVideoFile s"
      unfolding parsed
      using applyParsed_no_video [of data name zp createObjectURL s] nv
      by (simp add: applyParsed_fields)
  qed
  from rejected unparsable no_video messages_distinct show ?thesis
    by blast
qed

theorem handleLoadAnalysis_reports_witness:
  "alertShown (handleLoadAnalysis (Some (\<lambda>f. None)) (\<lambda>txt. SyntaxError) (\<lambda>f. ''blob:1'')
      (Some demoFile) initialApp) = Some msg_zip_invalid
   \<and> alertShown (handleLoadAnalysis (Some (\<lambda>f. Some dataOnlyZip)) (\<lambda>txt. SyntaxError)
      (\<lambda>f. ''blob:1'') (Some demoFile) initialApp) = Some msg_data_corrupt
   \<and> alertShown (handleLoadAnalysis (Some (\<lambda>f. Some dataOnlyZip)) (\<lambda>txt. JsonValue demoData)
      (\<lambda>f. ''blob:1'') (Some demoFile) initialApp) = Some msg_video_not_found
   \<and> notesState (handleLoadAnalysis (Some (\<lambda>f. Some dataOnlyZip)) (\<lambda>txt. JsonValue demoData)
      (\<lambda>f. ''blob:1'') (Some demoFile) initialApp) = ''late take off''
   \<and> clips (handleLoadAnalysis (Some (\<lambda>f. Some dataOnlyZip)) (\<lambda>txt. JsonValue demoData)
      (\<lambda>f. ''blob:1'') (Some demoFile) initialApp)
       = [\<lparr> c_id = ''c1'', c_name = ''Bottom Turn'', c_startTime = 9, c_endTime = 10,
            c_duration = 2, c_speed = 1 / 2 \<rparr>]
   \<and> videoSrc (handleLoadAnalysis (Some (\<lambda>f. Some dataOnlyZip)) (\<lambda>txt. JsonValue demoData)
      (\<lambda>f. ''blob:1'') (Some demoFile) initialApp) = None"
  using
    handleLoadAnalysis_reports [where loadAsync = "\<lambda>f. None" and f = demoFile
      and JSON_parse = "\<lambda>txt. SyntaxError" and createObjectURL = "\<lambda>f. ''blob:1''"
      and s = initialApp]
    handleLoadAnalysis_reports [where loadAsync = "\<lambda>f. Some dataOnlyZip" and f = demoFile
      and JSON_parse = "\<lambda>txt. SyntaxError" and createObjectURL = "\<lambda>f. ''blob:1''"
      and s = initialApp and zp = dataOnlyZip
      and entry = "\<lparr> b_bytes = ''{...}'', b_type = [] \<rparr>"]
    handleLoadAnalysis_reports [where loadAsync = "\<lambda>f. Some dataOnlyZip" and f = demoFile
      and JSON_parse = "\<lambda>txt. JsonValue demoData" and createObjectURL = "\<lambda>f. ''blob:1''"
      and s = initialApp and zp = dataOnlyZip
      and entry = "\<lparr> b_bytes = ''{...}'', b_type = [] \<rparr>" and data = demoData
      and n = "''late take off''" and ds = "[]"
      and as = "[\<lparr> a_id = ''a1'', a_time = 9, a_x = Fin (1 / 2), a_y = Fin (1 / 2),
                   a_text = ''Bottom Turn'', a_color = ''#00ff00'' \<rparr>]"
      and cs = "[\<lparr> c_id = ''c1'', c_name = ''Bottom Turn'', c_startTime = 9, c_endTime = 10,
                   c_duration = 2, c_speed = 1 / 2 \<rparr>]"
      and name = "''wave.mp4''"]
  by (simp add: dataOnlyZip_def demoData_def initialApp_def)

end
